theory Spec2Isabelle
  imports Main
begin

section \<open>The user-to-socket directory\<close>

text \<open>
  The socket server keeps \<^verbatim>\<open>const userSocketMap = new Map()\<close>, keyed by user id, with the
  socket id as value. A JavaScript \<^verbatim>\<open>Map\<close> iterates in insertion order, and
  \<^verbatim>\<open>disconnect\<close> depends on that order (it stops at the first entry whose value matches),
  so the directory is an association list in insertion order.

  User ids, socket ids and channel ids are opaque strings. A value that JavaScript may leave
  \<^verbatim>\<open>undefined\<close> is a \<open>string option\<close>.
\<close>

type_synonym directory = "(string \<times> string) list"

text \<open>\<^verbatim>\<open>if (x)\<close> on a string or \<^verbatim>\<open>undefined\<close>: the empty string and \<^verbatim>\<open>undefined\<close> are falsy.\<close>

definition truthy :: "string option \<Rightarrow> bool" where
  "truthy x = (case x of None \<Rightarrow> False | Some s \<Rightarrow> s \<noteq> [])"

text \<open>\<^verbatim>\<open>Map.prototype.set\<close>: an existing key keeps its position and takes the new value, a new
  key is appended.\<close>

primrec map_set :: "directory \<Rightarrow> string \<Rightarrow> string \<Rightarrow> directory" where
  "map_set [] key val = [(key, val)]"
| "map_set (entry # entries) key val =
     (if fst entry = key then (key, val) # entries else entry # map_set entries key val)"

text \<open>\<^verbatim>\<open>Map.prototype.get\<close>. Only strings are ever stored as keys, so the key
  \<^verbatim>\<open>undefined\<close> is never found.\<close>

primrec map_get_string :: "directory \<Rightarrow> string \<Rightarrow> string option" where
  "map_get_string [] key = None"
| "map_get_string (entry # entries) key =
     (if fst entry = key then Some (snd entry) else map_get_string entries key)"

definition map_get :: "directory \<Rightarrow> string option \<Rightarrow> string option" where
  "map_get userSocketMap key =
     (case key of None \<Rightarrow> None | Some k \<Rightarrow> map_get_string userSocketMap k)"

text \<open>\<^verbatim>\<open>Map.prototype.delete\<close>.\<close>

definition map_delete :: "directory \<Rightarrow> string \<Rightarrow> directory" where
  "map_delete userSocketMap key = filter (\<lambda>entry. fst entry \<noteq> key) userSocketMap"

record socket =
  socket_id :: string
  handshake_query_userId :: "string option"

text \<open>
  \<^verbatim>\<open>
  const disconnect = (socket) => {
      for(const [userId , socketId] of userSocketMap){
          if(socketId == socket.id ){
              userSocketMap.delete(userId);
              break;
          }
      }
      console.log(...);
  }
  \<close>
  The loop runs over the entries that are left to visit; the first match deletes its key from
  the whole map and ends the loop. The \<^verbatim>\<open>console.log\<close> calls of \<^verbatim>\<open>disconnect\<close> and of the
  connection handler report no error and are left out.
\<close>

fun disconnect_loop :: "directory \<Rightarrow> directory \<Rightarrow> socket \<Rightarrow> directory" where
  "disconnect_loop userSocketMap [] socket = userSocketMap"
| "disconnect_loop userSocketMap ((userId, socketId) # entries) socket =
     (if socketId = socket_id socket then map_delete userSocketMap userId
      else disconnect_loop userSocketMap entries socket)"

definition disconnect :: "directory \<Rightarrow> socket \<Rightarrow> directory" where
  "disconnect userSocketMap socket = disconnect_loop userSocketMap userSocketMap socket"

text \<open>
  The part of \<^verbatim>\<open>io.on("connection", ...)\<close> that touches the directory, and the names of the
  listeners it attaches to the socket:
  \<^verbatim>\<open>
  const userId = socket.handshake.query.userId;
  if(userId){ userSocketMap.set(userId , socket.id); ... } else { console.log(...) }
  socket.on("sendMessage" , sendMessage);
  socket.on("sendMessageOnChannel" , sendMessageOnChannel);
  socket.on("disconnect",() => disconnect(socket))
  \<close>
\<close>

definition connection :: "directory \<Rightarrow> socket \<Rightarrow> directory \<times> string list" where
  "connection userSocketMap socket =
     (let userId = handshake_query_userId socket in
      ((case userId of
          None \<Rightarrow> userSocketMap
        | Some u \<Rightarrow> if truthy userId then map_set userSocketMap u (socket_id socket)
                    else userSocketMap),
       [''sendMessage'', ''sendMessageOnChannel'', ''disconnect'']))"

section \<open>The persistence gateway\<close>

text \<open>
  The handlers reach MongoDB through three Mongoose models. The collections are lists in
  insertion order. The schemas are those of the repository (\<^verbatim>\<open>messages.model.js\<close>,
  \<^verbatim>\<open>channel.model.js\<close>, \<^verbatim>\<open>user.model.js\<close>); of a user only the fields that
  \<^verbatim>\<open>populate\<close> selects are kept. Identifiers of users and channels are opaque strings (the
  24-digit format of an ObjectId is not modelled: an identifier that is present is taken to be
  one that Mongoose can cast), the \<^verbatim>\<open>_id\<close> that the driver assigns to a
  new message is a natural number that no stored message carries, and \<^verbatim>\<open>Date.now\<close> reads
  the field \<open>clock\<close>.
\<close>

record user =
  user_id :: string
  email :: string
  firstName :: "string option"
  lastName :: "string option"
  imageURL :: "string option"
  colorTheme :: "nat option"

text \<open>The object a client submits with \<^verbatim>\<open>sendMessage\<close> or \<^verbatim>\<open>sendMessageOnChannel\<close>: any
  field may be missing.\<close>

record message =
  sender :: "string option"
  receiver :: "string option"
  messageType :: "string option"
  content :: "string option"
  fileUrl :: "string option"
  channel :: "string option"

text \<open>A stored message. The schema has no path \<^verbatim>\<open>channel\<close> (it is a TODO of the schema),
  so Mongoose drops that field when it stores the document: \<open>channel\<close> is \<open>None\<close> in every
  stored message.\<close>

record message_doc = message +
  doc_id :: nat
  timeStamp :: nat

record channel_doc =
  channel_id :: string
  channel_name :: string
  members :: "string list"
  admin :: "string list"
  messages :: "nat list"

text \<open>
  \<open>outage\<close> is the environment's part: \<open>Some n\<close> says that the next \<open>n\<close> awaited gateway
  calls still reach the storage and every later one throws; \<open>None\<close> says that the storage
  stays reachable.
\<close>

record database =
  Users :: "user list"
  Channels :: "channel_doc list"
  Messages :: "message_doc list"
  clock :: nat
  outage :: "nat option"

datatype error = ValidationError | StorageError | TypeError

definition gateway :: "database \<Rightarrow> error + database" where
  "gateway db =
     (case outage db of
        None \<Rightarrow> Inr db
      | Some n \<Rightarrow> (case n of 0 \<Rightarrow> Inl StorageError | Suc k \<Rightarrow> Inr (db\<lparr>outage := Some k\<rparr>)))"

text \<open>
  \<^verbatim>\<open>messageSchema\<close>: \<^verbatim>\<open>sender\<close> is required, \<^verbatim>\<open>messageType\<close> is required and one of
  \<^verbatim>\<open>"text"\<close> and \<^verbatim>\<open>"file"\<close>, \<^verbatim>\<open>content\<close> is required when the type is \<^verbatim>\<open>"text"\<close> and
  \<^verbatim>\<open>fileUrl\<close> when it is \<^verbatim>\<open>"file"\<close>. Mongoose's \<^verbatim>\<open>required\<close> rejects a missing value
  and, for a string, the empty string.
\<close>

definition validate :: "message \<Rightarrow> bool" where
  "validate message \<longleftrightarrow>
     sender message \<noteq> None \<and>
     (messageType message = Some ''text'' \<or> messageType message = Some ''file'') \<and>
     (messageType message = Some ''text'' \<longrightarrow> truthy (content message)) \<and>
     (messageType message = Some ''file'' \<longrightarrow> truthy (fileUrl message))"

definition fresh_id :: "message_doc list \<Rightarrow> nat" where
  "fresh_id docs = Suc (foldr max (map doc_id docs) 0)"

text \<open>The document that \<^verbatim>\<open>Message.create\<close> builds from the submitted object: the paths of
  the schema, a new \<^verbatim>\<open>_id\<close> and the default \<^verbatim>\<open>timeStamp\<close>.\<close>

definition new_document :: "database \<Rightarrow> message \<Rightarrow> message_doc" where
  "new_document db message =
     \<lparr>sender = sender message, receiver = receiver message,
      messageType = messageType message, content = content message,
      fileUrl = fileUrl message, channel = None,
      doc_id = fresh_id (Messages db), timeStamp = clock db\<rparr>"

text \<open>\<^verbatim>\<open>Message.create(message)\<close>: validation runs before the insert is sent.\<close>

definition Message_create :: "database \<Rightarrow> message \<Rightarrow> error + (message_doc \<times> database)" where
  "Message_create db message =
     (if \<not> validate message then Inl ValidationError
      else case gateway db of
        Inl e \<Rightarrow> Inl e
      | Inr db' \<Rightarrow>
          (let createdMessage = new_document db' message
           in Inr (createdMessage, db'\<lparr>Messages := Messages db' @ [createdMessage]\<rparr>)))"

text \<open>A reference to a user, as stored (an id or nothing) or after \<^verbatim>\<open>populate\<close> (the user
  document, \<^verbatim>\<open>null\<close> when no such user is stored).\<close>

datatype reference = Unpopulated "string option" | Populated "user option"

text \<open>What a push carries: the message document after \<^verbatim>\<open>populate\<close>; \<open>data_channelId\<close> is
  the \<^verbatim>\<open>channelId\<close> that channel delivery adds.\<close>

record message_data =
  data_id :: nat
  data_sender :: reference
  data_receiver :: reference
  data_messageType :: "string option"
  data_content :: "string option"
  data_fileUrl :: "string option"
  data_timeStamp :: nat
  data_channelId :: "string option"

definition populate_user :: "user list \<Rightarrow> string option \<Rightarrow> user option" where
  "populate_user users ref =
     (case ref of None \<Rightarrow> None | Some uid \<Rightarrow> find (\<lambda>u. user_id u = uid) users)"

definition populate_message :: "user list \<Rightarrow> bool \<Rightarrow> message_doc \<Rightarrow> message_data" where
  "populate_message users with_receiver d =
     \<lparr>data_id = doc_id d,
      data_sender = Populated (populate_user users (sender d)),
      data_receiver =
        (if with_receiver then Populated (populate_user users (receiver d))
         else Unpopulated (receiver d)),
      data_messageType = messageType d, data_content = content d,
      data_fileUrl = fileUrl d, data_timeStamp = timeStamp d,
      data_channelId = None\<rparr>"

text \<open>\<^verbatim>\<open>Message.findById(id).populate("sender", ...)\<close>, with
  \<^verbatim>\<open>.populate("receiver", ...)\<close> when \<open>with_receiver\<close> is set; \<^verbatim>\<open>null\<close> when no message has
  that id.\<close>

definition Message_findById_populate ::
    "database \<Rightarrow> nat \<Rightarrow> bool \<Rightarrow> error + (message_data option \<times> database)" where
  "Message_findById_populate db mid with_receiver =
     (case gateway db of
        Inl e \<Rightarrow> Inl e
      | Inr db' \<Rightarrow>
          Inr (map_option (populate_message (Users db') with_receiver)
                 (find (\<lambda>d. doc_id d = mid) (Messages db')),
               db'))"

text \<open>\<^verbatim>\<open>Channel.findByIdAndUpdate(id, {$push: {messages: mid}})\<close>: the channel with that id
  gets \<open>mid\<close> appended; when no channel has that id nothing is written and nothing is thrown.
  The model lets a missing id match no channel; no result below depends on what this call does
  for a missing id.\<close>

primrec push_message :: "string \<Rightarrow> nat \<Rightarrow> channel_doc list \<Rightarrow> channel_doc list" where
  "push_message cid mid [] = []"
| "push_message cid mid (c # cs) =
     (if channel_id c = cid then c\<lparr>messages := messages c @ [mid]\<rparr> # cs
      else c # push_message cid mid cs)"

definition Channel_findByIdAndUpdate_push ::
    "database \<Rightarrow> string option \<Rightarrow> nat \<Rightarrow> error + database" where
  "Channel_findByIdAndUpdate_push db cid mid =
     (case gateway db of
        Inl e \<Rightarrow> Inl e
      | Inr db' \<Rightarrow>
          (case cid of
             None \<Rightarrow> Inr db'
           | Some c \<Rightarrow> Inr (db'\<lparr>Channels := push_message c mid (Channels db')\<rparr>)))"

text \<open>\<^verbatim>\<open>Channel.findById(id).populate("members").populate("admin")\<close>: the channel with its
  member and admin ids replaced by the user documents; an id with no user document is left out
  of a populated array.\<close>

record populated_channel =
  pc_id :: string
  pc_members :: "user list"
  pc_admin :: "user list"

definition populate_users :: "user list \<Rightarrow> string list \<Rightarrow> user list" where
  "populate_users users ids = List.map_filter (\<lambda>uid. populate_user users (Some uid)) ids"

definition Channel_findById_populate ::
    "database \<Rightarrow> string option \<Rightarrow> error + (populated_channel option \<times> database)" where
  "Channel_findById_populate db cid =
     (case gateway db of
        Inl e \<Rightarrow> Inl e
      | Inr db' \<Rightarrow>
          Inr ((case cid of
                  None \<Rightarrow> None
                | Some c \<Rightarrow>
                    map_option
                      (\<lambda>ch. \<lparr>pc_id = channel_id ch,
                             pc_members = populate_users (Users db') (members ch),
                             pc_admin = populate_users (Users db') (admin ch)\<rparr>)
                      (find (\<lambda>ch. channel_id ch = c) (Channels db'))),
               db'))"

section \<open>The delivery handlers\<close>

text \<open>
  What a handler does besides changing the database, in program order: a read of the directory
  (\<^verbatim>\<open>userSocketMap.get(key)\<close>), an awaited call of the gateway (by name), a push
  (\<^verbatim>\<open>io.to(socketId).emit(label, data)\<close>) and the \<^verbatim>\<open>console.log\<close> of the
  \<^verbatim>\<open>catch\<close> block. One run of a handler is modelled on its own: the directory and the
  database are those it meets, and no other handler runs during its awaited calls.
\<close>

datatype effect =
    MapGet "string option"
  | Await string
  | Emit string string "message_data option"
  | ConsoleLog error

text \<open>The pushes among the effects: target socket id, event label, payload.\<close>

fun emits :: "effect list \<Rightarrow> (string \<times> string \<times> message_data option) list" where
  "emits [] = []"
| "emits (Emit socketId label data # es) = (socketId, label, data) # emits es"
| "emits (e # es) = emits es"

definition pushes_to :: "string \<Rightarrow> effect list \<Rightarrow> nat" where
  "pushes_to socketId es = length (filter (\<lambda>p. fst p = socketId) (emits es))"

text \<open>\<^verbatim>\<open>if(socketId){ io.to(socketId).emit(label, data) }\<close>\<close>

definition emit_if_online :: "string option \<Rightarrow> string \<Rightarrow> message_data option \<Rightarrow> effect list" where
  "emit_if_online socketId label data =
     (case socketId of
        None \<Rightarrow> []
      | Some s \<Rightarrow> if truthy socketId then [Emit s label data] else [])"

text \<open>
  \<^verbatim>\<open>
  const sendMessage = async (message) =>{
      try{
          const senderSocketId = userSocketMap.get(message.sender);
          const receiverSocketId = userSocketMap.get(message.receiver);
          const createdMessage  = await Message.create(message);
          const messageData = await Message.findById(createdMessage._id)
          .populate("sender" , ...).populate("receiver", ...);
          if(receiverSocketId){ io.to(receiverSocketId).emit("recieveMessage" , messageData) }
          if(senderSocketId){ io.to(senderSocketId).emit("recieveMessage" , messageData); }
      }catch(error){
          console.log({error});
      }
  }
  \<close>
\<close>

definition sendMessage :: "directory \<Rightarrow> database \<Rightarrow> message \<Rightarrow> database \<times> effect list" where
  "sendMessage userSocketMap db message =
     (let senderSocketId = map_get userSocketMap (sender message);
          receiverSocketId = map_get userSocketMap (receiver message);
          lookups = [MapGet (sender message), MapGet (receiver message)]
      in case Message_create db message of
           Inl error \<Rightarrow> (db, lookups @ [Await ''Message.create'', ConsoleLog error])
         | Inr (createdMessage, db1) \<Rightarrow>
             (case Message_findById_populate db1 (doc_id createdMessage) True of
                Inl error \<Rightarrow>
                  (db1, lookups @ [Await ''Message.create'', Await ''Message.findById'',
                                   ConsoleLog error])
              | Inr (messageData, db2) \<Rightarrow>
                  (db2, lookups @ [Await ''Message.create'', Await ''Message.findById'']
                        @ emit_if_online receiverSocketId ''recieveMessage'' messageData
                        @ emit_if_online senderSocketId ''recieveMessage'' messageData)))"

text \<open>
  \<^verbatim>\<open>
  channel.members.forEach( (member) => {
      const memberSocketId = userSocketMap.get(member._id.toString());
      if(memberSocketId){ io.to(memberSocketId).emit("recieveChannelMessage" , finalData); }
  })
  \<close>
  and the same loop over \<^verbatim>\<open>channel.admin\<close>.
\<close>

fun broadcast :: "directory \<Rightarrow> user list \<Rightarrow> message_data \<Rightarrow> effect list" where
  "broadcast userSocketMap [] finalData = []"
| "broadcast userSocketMap (member # rest) finalData =
     (let memberSocketId = map_get userSocketMap (Some (user_id member))
      in MapGet (Some (user_id member))
         # emit_if_online memberSocketId ''recieveChannelMessage'' (Some finalData)
         @ broadcast userSocketMap rest finalData)"

text \<open>
  \<^verbatim>\<open>
  const sendMessageOnChannel = async (message) => {
      try{
          const createdMessage = await Message.create(message);
          const messageData = await Message.findById(createdMessage._id)
          .populate("sender" , ...).exec();
          await Channel.findByIdAndUpdate(message.channel , {
              $push : {messages : createdMessage._id},
          });
          const channel = await Channel.findById(message.channel)
          .populate("members").populate("admin");
          const finalData = {...messageData._doc , channelId : channel._id};
          if(channel && channel.members){ channel.members.forEach(...) }
          if(channel && channel.admin){ channel.admin.forEach(...) }
      }catch(error){
          console.log({error});
      }
  }
  \<close>
  Reading \<^verbatim>\<open>messageData._doc\<close> or \<^verbatim>\<open>channel._id\<close> of \<^verbatim>\<open>null\<close> throws a TypeError, which
  the same \<^verbatim>\<open>catch\<close> logs. The arrays \<^verbatim>\<open>members\<close> and \<^verbatim>\<open>admin\<close> of a channel document
  are always truthy.
\<close>

definition sendMessageOnChannel ::
    "directory \<Rightarrow> database \<Rightarrow> message \<Rightarrow> database \<times> effect list" where
  "sendMessageOnChannel userSocketMap db message =
     (case Message_create db message of
        Inl error \<Rightarrow> (db, [Await ''Message.create'', ConsoleLog error])
      | Inr (createdMessage, db1) \<Rightarrow>
     (case Message_findById_populate db1 (doc_id createdMessage) False of
        Inl error \<Rightarrow>
          (db1, [Await ''Message.create'', Await ''Message.findById'', ConsoleLog error])
      | Inr (messageData, db2) \<Rightarrow>
     (case Channel_findByIdAndUpdate_push db2 (channel message) (doc_id createdMessage) of
        Inl error \<Rightarrow>
          (db2, [Await ''Message.create'', Await ''Message.findById'',
                 Await ''Channel.findByIdAndUpdate'', ConsoleLog error])
      | Inr db3 \<Rightarrow>
     (case Channel_findById_populate db3 (channel message) of
        Inl error \<Rightarrow>
          (db3, [Await ''Message.create'', Await ''Message.findById'',
                 Await ''Channel.findByIdAndUpdate'', Await ''Channel.findById'',
                 ConsoleLog error])
      | Inr (channelDoc, db4) \<Rightarrow>
          (let awaits = [Await ''Message.create'', Await ''Message.findById'',
                         Await ''Channel.findByIdAndUpdate'', Await ''Channel.findById'']
           in case messageData of
                None \<Rightarrow> (db4, awaits @ [ConsoleLog TypeError])
              | Some doc \<Rightarrow>
                  (case channelDoc of
                     None \<Rightarrow> (db4, awaits @ [ConsoleLog TypeError])
                   | Some ch \<Rightarrow>
                       (let finalData = doc\<lparr>data_channelId := Some (pc_id ch)\<rparr>
                        in (db4, awaits
                                 @ broadcast userSocketMap (pc_members ch) finalData
                                 @ broadcast userSocketMap (pc_admin ch) finalData))))))))"

section \<open>History fetch\<close>

datatype response =
    Json_msg nat string
  | Json_messages nat "message_doc list"

text \<open>
  \<^verbatim>\<open>getMessages\<close> of \<^verbatim>\<open>MessagesController.js\<close>; \<open>user1\<close> is \<^verbatim>\<open>req.userID\<close> and \<open>user2\<close>
  is \<^verbatim>\<open>req.body.id\<close>:
  \<^verbatim>\<open>
  if(!user1 || !user2){ return res.status(404).json({ msg : "Both the Users are Required" }) }
  const messages = await Message.find({
      $or: [ {sender : user1 , receiver : user2}, {sender : user2 , receiver : user1} ]
  }).sort({timeStamp : 1});
  return res.status(200).json({ messages })
  \<close>
  with \<^verbatim>\<open>res.status(500).json({ msg : "Internal Server Error" })\<close> in the \<^verbatim>\<open>catch\<close>.
\<close>

definition getMessages :: "database \<Rightarrow> string option \<Rightarrow> string option \<Rightarrow> response" where
  "getMessages db user1 user2 =
     (if \<not> truthy user1 \<or> \<not> truthy user2 then Json_msg 404 ''Both the Users are Required''
      else case gateway db of
        Inl error \<Rightarrow> Json_msg 500 ''Internal Server Error''
      | Inr db' \<Rightarrow>
          Json_messages 200
            (sort_key timeStamp
               (filter (\<lambda>d. (sender d = user1 \<and> receiver d = user2)
                           \<or> (sender d = user2 \<and> receiver d = user1))
                  (Messages db'))))"

section \<open>Events of a connected socket\<close>

text \<open>What a client can make a connected socket emit to the server: the three events the
  connection handler listens to.\<close>

datatype client_event =
    sendMessage_event message
  | sendMessageOnChannel_event message
  | disconnect_event

record server =
  srv_userSocketMap :: directory
  srv_db :: database

text \<open>The listener that \<^verbatim>\<open>io.on("connection", ...)\<close> attached for the event runs. The two
  submission listeners are the handlers themselves, which take the message only; the
  \<^verbatim>\<open>disconnect\<close> listener closes over the socket.\<close>

definition socket_on :: "server \<Rightarrow> socket \<Rightarrow> client_event \<Rightarrow> server \<times> effect list" where
  "socket_on srv socket event =
     (case event of
        sendMessage_event message \<Rightarrow>
          (let (db', effects) = sendMessage (srv_userSocketMap srv) (srv_db srv) message
           in (srv\<lparr>srv_db := db'\<rparr>, effects))
      | sendMessageOnChannel_event message \<Rightarrow>
          (let (db', effects) = sendMessageOnChannel (srv_userSocketMap srv) (srv_db srv) message
           in (srv\<lparr>srv_db := db'\<rparr>, effects))
      | disconnect_event \<Rightarrow>
          (srv\<lparr>srv_userSocketMap := disconnect (srv_userSocketMap srv) socket\<rparr>, []))"

section \<open>Conditions on the environment, and data for the examples\<close>

text \<open>The storage stays reachable for the next \<open>n\<close> awaited gateway calls.\<close>

definition reachable_for :: "nat \<Rightarrow> database \<Rightarrow> bool" where
  "reachable_for n d = (case outage d of None \<Rightarrow> True | Some k \<Rightarrow> n \<le> k)"

text \<open>What a gateway call that reaches the storage does to the environment's counter.\<close>

definition tick :: "database \<Rightarrow> database" where
  "tick d = d\<lparr>outage := map_option (\<lambda>k. k - 1) (outage d)\<rparr>"

text \<open>
  The directory as socket.io lets it be: a socket id is a non-empty string, and the connection
  handler runs once per socket, so no socket id is the value of two entries. Every directory
  that connections and disconnections produce is of this kind (\<open>run_directory_ok\<close>).
\<close>

definition directory_ok :: "directory \<Rightarrow> bool" where
  "directory_ok m \<longleftrightarrow> distinct (map snd m) \<and> (\<forall>entry \<in> set m. snd entry \<noteq> [])"

text \<open>The socket ids that the directory holds for a list of identities, in the order of the
  list; an identity without an entry contributes nothing.\<close>

definition live_handles :: "directory \<Rightarrow> string list \<Rightarrow> string list" where
  "live_handles m ids = List.map_filter (\<lambda>uid. map_get m (Some uid)) ids"

text \<open>The event labels of the pushes among the effects.\<close>

definition labels :: "effect list \<Rightarrow> string list" where
  "labels es = map (\<lambda>p. fst (snd p)) (emits es)"

text \<open>The effects that come before the first \<^verbatim>\<open>await Message.create(...)\<close>.\<close>

definition before_create :: "effect list \<Rightarrow> effect list" where
  "before_create es = takeWhile (\<lambda>e. e \<noteq> Await ''Message.create'') es"

fun is_push :: "effect \<Rightarrow> bool" where
  "is_push (Emit socketId label data) = True"
| "is_push e = False"

definition alice :: user where
  "alice = \<lparr>user_id = ''alice'', email = ''alice@example.org'', firstName = Some ''Alice'',
            lastName = None, imageURL = None, colorTheme = Some 1\<rparr>"

definition bob :: user where
  "bob = \<lparr>user_id = ''bob'', email = ''bob@example.org'', firstName = Some ''Bob'',
          lastName = None, imageURL = None, colorTheme = None\<rparr>"

text \<open>One channel, of which alice is both a member and the admin.\<close>

definition example_db :: database where
  "example_db =
     \<lparr>Users = [alice, bob],
      Channels = [\<lparr>channel_id = ''c1'', channel_name = ''general'',
                   members = [''bob'', ''alice''], admin = [''alice''], messages = []\<rparr>],
      Messages = [], clock = 7, outage = None\<rparr>"

definition hi :: message where
  "hi = \<lparr>sender = Some ''alice'', receiver = Some ''bob'', messageType = Some ''text'',
         content = Some ''hi'', fileUrl = None, channel = None\<rparr>"

definition both_online :: directory where
  "both_online = [(''alice'', ''s1''), (''bob'', ''s2'')]"

definition no_content :: message where
  "no_content = hi\<lparr>content := None\<rparr>"

definition to_general :: message where
  "to_general = \<lparr>sender = Some ''bob'', receiver = None, messageType = Some ''text'',
                 content = Some ''hello all'', fileUrl = None, channel = Some ''c1''\<rparr>"

definition to_nowhere :: message where
  "to_nowhere = to_general\<lparr>channel := Some ''c9''\<rparr>"

definition anonymous :: socket where
  "anonymous = \<lparr>socket_id = ''s0'', handshake_query_userId = None\<rparr>"

definition example_server :: server where
  "example_server = \<lparr>srv_userSocketMap = both_online, srv_db = example_db\<rparr>"

text \<open>
  The life of the directory: sockets connect and disconnect, in any order. \<open>run\<close> replays a
  list of such events from the empty directory. \<open>socket_ids_fresh used events\<close> says what
  socket.io guarantees about the events: every connecting socket has a non-empty id that no
  earlier socket had.
\<close>

datatype lifecycle = Connects socket | Disconnects socket

fun lifecycle_step :: "directory \<Rightarrow> lifecycle \<Rightarrow> directory" where
  "lifecycle_step m (Connects s) = fst (connection m s)"
| "lifecycle_step m (Disconnects s) = disconnect m s"

definition run :: "lifecycle list \<Rightarrow> directory" where
  "run events = foldl lifecycle_step [] events"

fun socket_ids_fresh :: "string list \<Rightarrow> lifecycle list \<Rightarrow> bool" where
  "socket_ids_fresh used [] = True"
| "socket_ids_fresh used (Connects s # events) =
     (socket_id s \<noteq> [] \<and> socket_id s \<notin> set used
      \<and> socket_ids_fresh (socket_id s # used) events)"
| "socket_ids_fresh used (Disconnects s # events) = socket_ids_fresh used events"

section \<open>Lemmas on the gateway\<close>

lemma gateway_ok: "reachable_for (Suc n) d \<Longrightarrow> gateway d = Inr (tick d)"
  by (auto simp: reachable_for_def gateway_def tick_def split: option.splits nat.splits)

lemma gateway_Inl: "gateway d = Inl e \<longleftrightarrow> outage d = Some 0 \<and> e = StorageError"
  by (auto simp: gateway_def split: option.splits nat.splits)

lemma reachable_tick: "reachable_for (Suc n) d \<Longrightarrow> reachable_for n (tick d)"
  by (auto simp: reachable_for_def tick_def split: option.splits)

lemma tick_fields [simp]:
  "Users (tick d) = Users d" "Channels (tick d) = Channels d"
  "Messages (tick d) = Messages d" "clock (tick d) = clock d"
  by (simp_all add: tick_def)

lemma foldr_max_ge: "x \<in> set xs \<Longrightarrow> x \<le> foldr max xs (0::nat)"
  by (induction xs) auto

lemma fresh_id_fresh: "d \<in> set docs \<Longrightarrow> doc_id d < fresh_id docs"
  unfolding fresh_id_def using foldr_max_ge [of "doc_id d" "map doc_id docs"] by auto

lemma find_append_miss: "\<forall>x \<in> set xs. \<not> P x \<Longrightarrow> find P (xs @ ys) = find P ys"
  by (induction xs) auto

lemma find_new_document:
  "find (\<lambda>d. doc_id d = fresh_id docs) (docs @ [nd]) = (if doc_id nd = fresh_id docs then Some nd else None)"
proof -
  have "\<forall>x \<in> set docs. \<not> doc_id x = fresh_id docs"
    using fresh_id_fresh by fastforce
  then show ?thesis by (simp add: find_append_miss)
qed

lemma new_document_fields [simp]:
  "doc_id (new_document d m) = fresh_id (Messages d)"
  "sender (new_document d m) = sender m" "receiver (new_document d m) = receiver m"
  "content (new_document d m) = content m" "messageType (new_document d m) = messageType m"
  "fileUrl (new_document d m) = fileUrl m" "timeStamp (new_document d m) = clock d"
  by (simp_all add: new_document_def)

lemma new_document_tick [simp]: "new_document (tick d) m = new_document d m"
  by (simp add: new_document_def)

lemma Message_create_ok:
  "validate m \<Longrightarrow> reachable_for (Suc n) d \<Longrightarrow>
   Message_create d m = Inr (new_document d m, (tick d)\<lparr>Messages := Messages d @ [new_document d m]\<rparr>)"
  by (simp add: Message_create_def gateway_ok Let_def)

lemma emits_append [simp]: "emits (xs @ ys) = emits xs @ emits ys"
  by (induction xs rule: emits.induct) auto

lemma emits_emit_if_online:
  "emits (emit_if_online sid l d) = (case sid of None \<Rightarrow> [] | Some s \<Rightarrow> if s = [] then [] else [(s, l, d)])"
  by (auto simp: emit_if_online_def truthy_def split: option.splits)

lemma sendMessage_ok:
  assumes "validate m" "reachable_for 2 d"
  shows "sendMessage usm d m =
     ((tick (tick d))\<lparr>Messages := Messages d @ [new_document d m]\<rparr>,
      [MapGet (sender m), MapGet (receiver m), Await ''Message.create'', Await ''Message.findById'']
      @ emit_if_online (map_get usm (receiver m)) ''recieveMessage''
          (Some (populate_message (Users d) True (new_document d m)))
      @ emit_if_online (map_get usm (sender m)) ''recieveMessage''
          (Some (populate_message (Users d) True (new_document d m))))"
proof -
  have r1: "reachable_for (Suc 1) d" using assms(2) by (simp add: numeral_2_eq_2)
  have c: "Message_create d m = Inr (new_document d m, (tick d)\<lparr>Messages := Messages d @ [new_document d m]\<rparr>)"
    using Message_create_ok [OF assms(1) r1] .
  have r2: "reachable_for (Suc 0) ((tick d)\<lparr>Messages := Messages d @ [new_document d m]\<rparr>)"
    using reachable_tick [OF r1] by (simp add: reachable_for_def)
  have f: "Message_findById_populate ((tick d)\<lparr>Messages := Messages d @ [new_document d m]\<rparr>) (fresh_id (Messages d)) True
     = Inr (Some (populate_message (Users d) True (new_document d m)),
            (tick (tick d))\<lparr>Messages := Messages d @ [new_document d m]\<rparr>)"
    by (simp add: Message_findById_populate_def gateway_ok [OF r2] find_new_document) (simp add: tick_def)
  show ?thesis
    by (simp add: sendMessage_def c f Let_def)
qed


section \<open>Lemmas on the directory\<close>

lemma map_get_string_map_set:
  "map_get_string (map_set m k v) k' = (if k' = k then Some v else map_get_string m k')"
  by (induction m) auto

lemma disconnect_loop_no_match:
  "\<forall>entry \<in> set entries. snd entry \<noteq> socket_id socket \<Longrightarrow>
   disconnect_loop m entries socket = m"
  by (induction m entries socket rule: disconnect_loop.induct) auto

lemma map_get_string_mem: "map_get_string m k = Some h \<Longrightarrow> (k, h) \<in> set m"
  by (induction m) (auto split: if_splits)

lemma map_get_mem: "map_get m (Some k) = Some h \<Longrightarrow> (k, h) \<in> set m"
  by (simp add: map_get_def map_get_string_mem)

lemma directory_ok_handles:
  assumes "directory_ok m" "map_get m (Some a) = Some ha" "map_get m (Some b) = Some hb" "a \<noteq> b"
  shows "ha \<noteq> hb" "ha \<noteq> []" "hb \<noteq> []"
proof -
  have ma: "(a, ha) \<in> set m" and mb: "(b, hb) \<in> set m"
    using assms(2,3) by (auto dest: map_get_mem)
  have "inj_on snd (set m)" using assms(1) by (simp add: directory_ok_def distinct_map)
  then have "snd (a, ha) = snd (b, hb) \<Longrightarrow> (a, ha) = (b, hb)"
    using ma mb by (simp only: inj_on_eq_iff)
  then show "ha \<noteq> hb" using assms(4) by auto
  show "ha \<noteq> []" "hb \<noteq> []" using assms(1) ma mb by (auto simp: directory_ok_def)
qed

lemma directory_ok_nonempty:
  "directory_ok m \<Longrightarrow> map_get m k = Some h \<Longrightarrow> h \<noteq> []"
proof (cases k)
  case None
  assume "map_get m k = Some h"
  with None show ?thesis by (simp add: map_get_def)
next
  case (Some a)
  assume ok: "directory_ok m" and g: "map_get m k = Some h"
  from g Some have "(a, h) \<in> set m" by (simp add: map_get_mem)
  with ok show ?thesis by (force simp: directory_ok_def)
qed

lemma directory_ok_Nil: "directory_ok []"
  by (simp add: directory_ok_def)

lemma set_map_set: "set (map_set m k v) \<subseteq> insert (k, v) (set m)"
  by (induction m) auto

lemma distinct_map_set:
  "distinct (map snd m) \<Longrightarrow> v \<notin> snd ` set m \<Longrightarrow> distinct (map snd (map_set m k v))"
proof (induction m)
  case Nil
  then show ?case by simp
next
  case (Cons e m)
  have sub: "snd ` set (map_set m k v) \<subseteq> insert v (snd ` set m)"
    using set_map_set [of m k v] by auto
  from Cons sub show ?case by auto
qed

lemma directory_ok_connection:
  assumes "directory_ok m" "socket_id s \<noteq> []" "socket_id s \<notin> snd ` set m"
  shows "directory_ok (fst (connection m s))"
proof (cases "truthy (handshake_query_userId s)")
  case False
  then show ?thesis using assms(1) by (auto simp: connection_def Let_def split: option.splits)
next
  case True
  then obtain u where u: "handshake_query_userId s = Some u" by (auto simp: truthy_def split: option.splits)
  have eq: "fst (connection m s) = map_set m u (socket_id s)"
    using True u by (simp add: connection_def)
  have "distinct (map snd (map_set m u (socket_id s)))"
    using assms by (simp add: distinct_map_set directory_ok_def)
  moreover have "\<forall>entry \<in> set (map_set m u (socket_id s)). snd entry \<noteq> []"
    using set_map_set [of m u "socket_id s"] assms(1,2) by (auto simp: directory_ok_def)
  ultimately show ?thesis by (simp add: eq directory_ok_def)
qed

lemma disconnect_loop_filter:
  "disconnect_loop m entries s = m \<or> (\<exists>k. disconnect_loop m entries s = map_delete m k)"
  by (induction m entries s rule: disconnect_loop.induct) auto

lemma directory_ok_disconnect: "directory_ok m \<Longrightarrow> directory_ok (disconnect m s)"
  using disconnect_loop_filter [of m m s]
  by (auto simp: disconnect_def directory_ok_def map_delete_def distinct_map_filter)

section \<open>Lemmas on direct delivery and the effects\<close>

lemma Message_findById_populate_Messages:
  "Message_findById_populate d i b = Inr (x, d') \<Longrightarrow>
     Messages d' = Messages d \<and> Channels d' = Channels d \<and> Users d' = Users d"
  by (auto simp: Message_findById_populate_def gateway_def split: sum.splits option.splits nat.splits)

lemma sendMessage_shape:
  "\<exists>rest. snd (sendMessage usm db m) =
            MapGet (sender m) # MapGet (receiver m) # Await ''Message.create'' # rest
     \<and> ((\<exists>e. rest = [ConsoleLog e])
        \<or> (\<exists>e. rest = [Await ''Message.findById'', ConsoleLog e])
        \<or> (\<exists>data. rest = Await ''Message.findById''
               # emit_if_online (map_get usm (receiver m)) ''recieveMessage'' data
               @ emit_if_online (map_get usm (sender m)) ''recieveMessage'' data))"
  by (auto simp: sendMessage_def Let_def split: sum.splits prod.splits)

lemma sendMessage_stores:
  assumes "validate m" "reachable_for 1 db"
  shows "Messages (fst (sendMessage usm db m)) = Messages db @ [new_document db m]"
proof -
  have r: "reachable_for (Suc 0) db" using assms(2) by simp
  show ?thesis
    by (auto simp: sendMessage_def Let_def Message_create_ok [OF assms(1) r]
          split: sum.splits prod.splits dest: Message_findById_populate_Messages)
qed

lemma pushes_to_emit_if_online:
  "pushes_to h (emit_if_online sid l d) = (if sid = Some h \<and> h \<noteq> [] then 1 else 0)"
  by (auto simp: pushes_to_def emit_if_online_def truthy_def split: option.splits)

lemma pushes_to_append [simp]: "pushes_to h (xs @ ys) = pushes_to h xs + pushes_to h ys"
  by (simp add: pushes_to_def)

lemma pushes_to_Cons_simps [simp]:
  "pushes_to h [] = 0"
  "pushes_to h (MapGet k # es) = pushes_to h es"
  "pushes_to h (Await n # es) = pushes_to h es"
  "pushes_to h (ConsoleLog e # es) = pushes_to h es"
  "pushes_to h (Emit s l d # es) = (if s = h then 1 else 0) + pushes_to h es"
  by (simp_all add: pushes_to_def)

lemma getMessages_ok:
  assumes "u1 \<noteq> []" "u2 \<noteq> []" "reachable_for 1 db"
  shows "getMessages db (Some u1) (Some u2) =
     Json_messages 200 (sort_key timeStamp
        (filter (\<lambda>d. (sender d = Some u1 \<and> receiver d = Some u2)
                    \<or> (sender d = Some u2 \<and> receiver d = Some u1)) (Messages db)))"
proof -
  have r: "reachable_for (Suc 0) db" using assms(3) by simp
  show ?thesis using assms(1,2) by (simp add: getMessages_def truthy_def gateway_ok [OF r])
qed


lemma emit_if_online_no_log: "ConsoleLog e \<notin> set (emit_if_online sid l d)"
  by (simp add: emit_if_online_def split: option.splits)

lemma sendMessage_logged_no_push:
  "ConsoleLog e \<in> set (snd (sendMessage usm db m)) \<Longrightarrow> emits (snd (sendMessage usm db m)) = []"
  using sendMessage_shape [of usm db m]
  by (auto simp: emit_if_online_no_log)

lemma broadcast_no_log: "ConsoleLog e \<notin> set (broadcast usm us d)"
  by (induction usm us d rule: broadcast.induct) (auto simp: emit_if_online_no_log Let_def)

lemma sendMessageOnChannel_logged_no_push:
  "ConsoleLog e \<in> set (snd (sendMessageOnChannel usm db m)) \<Longrightarrow>
     emits (snd (sendMessageOnChannel usm db m)) = []"
  by (auto simp: sendMessageOnChannel_def Let_def broadcast_no_log
        split: sum.splits prod.splits option.splits)

lemma Message_create_fail:
  assumes "\<not> validate m \<or> outage db = Some 0"
  shows "Message_create db m = Inl (if \<not> validate m then ValidationError else StorageError)"
  using assms gateway_Inl [of db StorageError]
  by (auto simp: Message_create_def split: sum.splits)

lemma emit_if_online_no_lookup: "MapGet k \<notin> set (emit_if_online sid l d)"
  by (simp add: emit_if_online_def split: option.splits)

lemma emit_if_online_pushes: "list_all is_push (emit_if_online sid l d)"
  by (simp add: emit_if_online_def split: option.splits)

lemma labels_emit_if_online: "l' \<in> set (labels (emit_if_online sid l d)) \<Longrightarrow> l' = l"
  by (auto simp: labels_def emit_if_online_def split: option.splits if_splits)

lemma labels_append [simp]: "labels (xs @ ys) = labels xs @ labels ys"
  by (simp add: labels_def)

lemma labels_simps [simp]:
  "labels [] = []"
  "labels (MapGet k # es) = labels es"
  "labels (Await n # es) = labels es"
  "labels (ConsoleLog e # es) = labels es"
  "labels (Emit s l d # es) = l # labels es"
  by (simp_all add: labels_def)

lemma labels_broadcast:
  "l \<in> set (labels (broadcast usm us d)) \<Longrightarrow> l = ''recieveChannelMessage''"
  by (induction usm us d rule: broadcast.induct)
     (auto simp: Let_def dest: labels_emit_if_online)

section \<open>Lemmas on channel delivery\<close>

lemma reachable_for_update [simp]:
  "reachable_for n (d\<lparr>Messages := ms\<rparr>) = reachable_for n d"
  "reachable_for n (d\<lparr>Channels := cs\<rparr>) = reachable_for n d"
  by (simp_all add: reachable_for_def)

lemma Message_findById_populate_ok:
  "reachable_for (Suc n) d \<Longrightarrow>
   Message_findById_populate d i b =
     Inr (map_option (populate_message (Users d) b) (find (\<lambda>x. doc_id x = i) (Messages d)),
          tick d)"
  by (simp add: Message_findById_populate_def gateway_ok)

lemma Channel_findByIdAndUpdate_push_ok:
  "reachable_for (Suc n) d \<Longrightarrow>
   Channel_findByIdAndUpdate_push d (Some c) i =
     Inr ((tick d)\<lparr>Channels := push_message c i (Channels d)\<rparr>)"
  by (simp add: Channel_findByIdAndUpdate_push_def gateway_ok)

lemma Channel_findById_populate_ok:
  "reachable_for (Suc n) d \<Longrightarrow>
   Channel_findById_populate d (Some c) =
     Inr (map_option
            (\<lambda>ch. \<lparr>pc_id = channel_id ch,
                   pc_members = populate_users (Users d) (members ch),
                   pc_admin = populate_users (Users d) (admin ch)\<rparr>)
            (find (\<lambda>ch. channel_id ch = c) (Channels d)),
          tick d)"
  by (simp add: Channel_findById_populate_def gateway_ok)

lemma gateway_fields:
  "gateway d = Inr d' \<Longrightarrow>
     Messages d' = Messages d \<and> Channels d' = Channels d \<and> Users d' = Users d"
  by (auto simp: gateway_def split: option.splits nat.splits)

lemma Channel_findById_populate_fields:
  "Channel_findById_populate d cid = Inr (x, d') \<Longrightarrow>
     Messages d' = Messages d \<and> Channels d' = Channels d \<and> Users d' = Users d"
  by (auto simp: Channel_findById_populate_def gateway_def split: sum.splits option.splits nat.splits)

lemma Channel_findById_populate_None:
  "Channel_findById_populate d (Some c) = Inr (x, d') \<Longrightarrow>
     c \<notin> channel_id ` set (Channels d) \<Longrightarrow> x = None"
proof -
  assume a: "Channel_findById_populate d (Some c) = Inr (x, d')"
    and n: "c \<notin> channel_id ` set (Channels d)"
  from a obtain g where g: "gateway d = Inr g"
    by (auto simp: Channel_findById_populate_def split: sum.splits)
  have "find (\<lambda>ch. channel_id ch = c) (Channels g) = None"
    using n gateway_fields [OF g] by (auto simp: find_None_iff)
  with a g show ?thesis by (simp add: Channel_findById_populate_def)
qed

lemma push_message_absent:
  "c \<notin> channel_id ` set cs \<Longrightarrow> push_message c i cs = cs"
  by (induction cs) auto

lemma find_push_message:
  "find (\<lambda>ch. channel_id ch = c) (push_message c i cs) =
     map_option (\<lambda>ch. ch\<lparr>messages := messages ch @ [i]\<rparr>) (find (\<lambda>ch. channel_id ch = c) cs)"
  by (induction cs) auto

lemma count_push_message:
  "find (\<lambda>ch. channel_id ch = c) cs = Some ch \<Longrightarrow>
   count_list (concat (map messages (push_message c i cs))) i =
     Suc (count_list (concat (map messages cs)) i)"
  by (induction cs) (auto split: if_splits)

lemma find_Some_id:
  "uid \<in> user_id ` set users \<Longrightarrow>
     \<exists>u. find (\<lambda>u. user_id u = uid) users = Some u \<and> user_id u = uid"
  by (induction users) auto

lemma populate_users_ids:
  "set ids \<subseteq> user_id ` set users \<Longrightarrow> map user_id (populate_users users ids) = ids"
proof (induction ids)
  case Nil
  then show ?case by (simp add: populate_users_def map_filter_simps)
next
  case (Cons uid ids)
  then obtain u where "find (\<lambda>u. user_id u = uid) users = Some u" "user_id u = uid"
    using find_Some_id [of uid users] by auto
  with Cons show ?case
    by (simp add: populate_users_def map_filter_simps populate_user_def)
qed

lemma emits_broadcast:
  "directory_ok usm \<Longrightarrow>
   emits (broadcast usm us d) =
     map (\<lambda>h. (h, ''recieveChannelMessage'', Some d)) (live_handles usm (map user_id us))"
proof (induction usm us d rule: broadcast.induct)
  case (1 usm d)
  then show ?case by (simp add: live_handles_def map_filter_simps)
next
  case (2 usm member rest d)
  then show ?case
    by (cases "map_get usm (Some (user_id member))")
       (auto simp: Let_def live_handles_def map_filter_simps emits_emit_if_online
          dest: directory_ok_nonempty)
qed

lemma sendMessageOnChannel_ok:
  assumes "validate m" "reachable_for 4 db" "channel m = Some c"
    and "find (\<lambda>ch. channel_id ch = c) (Channels db) = Some ch"
  shows "sendMessageOnChannel usm db m =
     ((tick (tick (tick (tick db))))
        \<lparr>Messages := Messages db @ [new_document db m],
         Channels := push_message c (fresh_id (Messages db)) (Channels db)\<rparr>,
      [Await ''Message.create'', Await ''Message.findById'',
       Await ''Channel.findByIdAndUpdate'', Await ''Channel.findById'']
      @ broadcast usm (populate_users (Users db) (members ch))
          ((populate_message (Users db) False (new_document db m))\<lparr>data_channelId := Some c\<rparr>)
      @ broadcast usm (populate_users (Users db) (admin ch))
          ((populate_message (Users db) False (new_document db m))\<lparr>data_channelId := Some c\<rparr>))"
proof -
  let ?doc = "new_document db m"
  let ?d1 = "(tick db)\<lparr>Messages := Messages db @ [?doc]\<rparr>"
  let ?d2 = "tick ?d1"
  let ?d3 = "(tick ?d2)\<lparr>Channels := push_message c (fresh_id (Messages db)) (Channels db)\<rparr>"
  have r4: "reachable_for (Suc (Suc (Suc (Suc 0)))) db" using assms(2) by (simp add: eval_nat_numeral)
  have c1: "Message_create db m = Inr (?doc, ?d1)"
    using Message_create_ok [OF assms(1) r4] .
  have r3: "reachable_for (Suc (Suc (Suc 0))) ?d1"
    using reachable_tick [OF r4] by simp
  have c2: "Message_findById_populate ?d1 (fresh_id (Messages db)) False =
              Inr (Some (populate_message (Users db) False ?doc), ?d2)"
    by (simp add: Message_findById_populate_ok [OF r3] find_new_document)
  have r2: "reachable_for (Suc (Suc 0)) ?d2"
    using reachable_tick [OF r3] by simp
  have c3: "Channel_findByIdAndUpdate_push ?d2 (channel m) (fresh_id (Messages db)) = Inr ?d3"
    by (simp add: assms(3) Channel_findByIdAndUpdate_push_ok [OF r2])
  have r1: "reachable_for (Suc 0) ?d3"
    using reachable_tick [OF r2] by simp
  have c4: "Channel_findById_populate ?d3 (channel m) =
              Inr (Some \<lparr>pc_id = c,
                         pc_members = populate_users (Users db) (members ch),
                         pc_admin = populate_users (Users db) (admin ch)\<rparr>, tick ?d3)"
  proof -
    have "channel_id ch = c" using assms(4) by (auto simp: find_Some_iff)
    then show ?thesis
      by (simp add: assms(3) Channel_findById_populate_ok [OF r1] find_push_message assms(4))
  qed
  show ?thesis
    by (simp add: sendMessageOnChannel_def c1 c2 c3 c4 Let_def) (simp add: tick_def)
qed


lemma find_mem: "find P xs = Some x \<Longrightarrow> x \<in> set xs \<and> P x"
  by (induction xs) (auto split: if_splits)

lemma find_exists: "c \<in> f ` set xs \<Longrightarrow> \<exists>x. find (\<lambda>y. f y = c) xs = Some x"
  by (induction xs) auto

lemma count_list_fresh: "count_list (map doc_id docs) (fresh_id docs) = 0"
  using fresh_id_fresh [of _ docs] by (fastforce simp: count_list_0_iff)

lemma channel_ids_push_message:
  "map channel_id (push_message c i cs) = map channel_id cs"
  by (induction cs) auto

lemma Channel_findByIdAndUpdate_push_fields:
  "Channel_findByIdAndUpdate_push d (Some c) i = Inr d' \<Longrightarrow>
     Messages d' = Messages d \<and> Channels d' = push_message c i (Channels d)
     \<and> Users d' = Users d"
  by (auto simp: Channel_findByIdAndUpdate_push_def split: sum.splits dest: gateway_fields)

lemma sendMessageOnChannel_fields:
  assumes "validate m" "reachable_for 1 db" "channel m = Some c"
  shows "Messages (fst (sendMessageOnChannel usm db m)) = Messages db @ [new_document db m]
       \<and> (Channels (fst (sendMessageOnChannel usm db m)) = Channels db
          \<or> Channels (fst (sendMessageOnChannel usm db m))
              = push_message c (fresh_id (Messages db)) (Channels db))"
proof -
  have r: "reachable_for (Suc 0) db" using assms(2) by simp
  note c1 = Message_create_ok [OF assms(1) r]
  show ?thesis
    by (auto simp: sendMessageOnChannel_def c1 assms(3) Let_def
          split: sum.splits prod.splits option.splits
          dest!: Message_findById_populate_Messages Channel_findByIdAndUpdate_push_fields
                 Channel_findById_populate_fields)
qed

lemma sendMessageOnChannel_unknown_channel:
  assumes "channel m = Some c" "c \<notin> channel_id ` set (Channels db)"
  shows "emits (snd (sendMessageOnChannel usm db m)) = []"
proof (cases "\<exists>e. ConsoleLog e \<in> set (snd (sendMessageOnChannel usm db m))")
  case True
  then show ?thesis using sendMessageOnChannel_logged_no_push by blast
next
  case False
  then obtain doc d1 md d2 d3 ch d4 where
    s1: "Message_create db m = Inr (doc, d1)"
    and s2: "Message_findById_populate d1 (doc_id doc) False = Inr (md, d2)"
    and s3: "Channel_findByIdAndUpdate_push d2 (Some c) (doc_id doc) = Inr d3"
    and s4: "Channel_findById_populate d3 (Some c) = Inr (Some ch, d4)"
    by (auto simp: sendMessageOnChannel_def assms(1) Let_def
          split: sum.splits prod.splits option.splits)
  have "Channels d1 = Channels db"
    using s1 by (auto simp: Message_create_def Let_def split: if_splits sum.splits
                      dest: gateway_fields)
  then have "Channels d2 = Channels db"
    using Message_findById_populate_Messages [OF s2] by simp
  then have "map channel_id (Channels d3) = map channel_id (Channels db)"
    using Channel_findByIdAndUpdate_push_fields [OF s3] by (simp add: channel_ids_push_message)
  then have "c \<notin> channel_id ` set (Channels d3)"
    using assms(2) by (metis list.set_map)
  with Channel_findById_populate_None [OF s4] show ?thesis by simp
qed

lemma sendMessageOnChannel_links:
  assumes "validate m" "reachable_for 3 db" "channel m = Some c"
  shows "Channels (fst (sendMessageOnChannel usm db m))
           = push_message c (fresh_id (Messages db)) (Channels db)"
proof -
  let ?doc = "new_document db m"
  let ?d1 = "(tick db)\<lparr>Messages := Messages db @ [?doc]\<rparr>"
  let ?d2 = "tick ?d1"
  let ?d3 = "(tick ?d2)\<lparr>Channels := push_message c (fresh_id (Messages db)) (Channels db)\<rparr>"
  have r3: "reachable_for (Suc (Suc (Suc 0))) db" using assms(2) by (simp add: eval_nat_numeral)
  have c1: "Message_create db m = Inr (?doc, ?d1)"
    using Message_create_ok [OF assms(1) r3] .
  have r2: "reachable_for (Suc (Suc 0)) ?d1"
    using reachable_tick [OF r3] by simp
  have c2: "Message_findById_populate ?d1 (fresh_id (Messages db)) False =
              Inr (Some (populate_message (Users db) False ?doc), ?d2)"
    by (simp add: Message_findById_populate_ok [OF r2] find_new_document)
  have r1: "reachable_for (Suc 0) ?d2"
    using reachable_tick [OF r2] by simp
  have c3: "Channel_findByIdAndUpdate_push ?d2 (channel m) (fresh_id (Messages db)) = Inr ?d3"
    by (simp add: assms(3) Channel_findByIdAndUpdate_push_ok [OF r1])
  show ?thesis
    by (auto simp: sendMessageOnChannel_def c1 c2 c3 Let_def
          split: sum.splits prod.splits option.splits
          dest!: Channel_findById_populate_fields)
qed


lemma example_validate_channel: "validate to_general" "validate to_nowhere"
  by (simp_all add: validate_def to_general_def to_nowhere_def truthy_def)

lemma snd_set_map_set: "snd ` set (map_set m k v) \<subseteq> insert v (snd ` set m)"
  using set_map_set [of m k v] by auto

lemma set_connection: "snd ` set (fst (connection m s)) \<subseteq> insert (socket_id s) (snd ` set m)"
proof (cases "handshake_query_userId s")
  case None
  then show ?thesis by (auto simp: connection_def)
next
  case (Some u)
  then show ?thesis
    using snd_set_map_set [of m u "socket_id s"] by (auto simp: connection_def Let_def)
qed

lemma disconnect_loop_find:
  "disconnect_loop m entries s =
     (case find (\<lambda>entry. snd entry = socket_id s) entries of
        None \<Rightarrow> m | Some entry \<Rightarrow> map_delete m (fst entry))"
  by (induction m entries s rule: disconnect_loop.induct) auto

lemma set_disconnect: "set (disconnect m s) \<subseteq> set m"
  using disconnect_loop_filter [of m m s] by (auto simp: disconnect_def map_delete_def)

lemma lifecycle_directory_ok:
  "directory_ok m \<Longrightarrow> snd ` set m \<subseteq> set used \<Longrightarrow> socket_ids_fresh used events \<Longrightarrow>
   directory_ok (foldl lifecycle_step m events)"
proof (induction used events arbitrary: m rule: socket_ids_fresh.induct)
  case (1 used)
  then show ?case by simp
next
  case (2 used s events)
  then have f: "socket_id s \<notin> snd ` set m" by auto
  have "directory_ok (fst (connection m s))"
    using 2 f by (simp add: directory_ok_connection)
  moreover have "snd ` set (fst (connection m s)) \<subseteq> set (socket_id s # used)"
    using set_connection [of m s] 2(3) by auto
  ultimately show ?case using 2 by simp
next
  case (3 used s events)
  have "directory_ok (disconnect m s)" using 3 by (simp add: directory_ok_disconnect)
  moreover have "snd ` set (disconnect m s) \<subseteq> set used"
    using set_disconnect [of m s] 3(3) by auto
  ultimately show ?case using 3 by simp
qed

lemma run_directory_ok: "socket_ids_fresh [] events \<Longrightarrow> directory_ok (run events)"
  using lifecycle_directory_ok [of "[]" "[]" events] by (simp add: run_def directory_ok_Nil)

lemma disconnect_removes:
  assumes "directory_ok m"
  shows "\<forall>entry \<in> set (disconnect m s). snd entry \<noteq> socket_id s"
proof (cases "find (\<lambda>entry. snd entry = socket_id s) m")
  case None
  then have "\<forall>entry \<in> set m. snd entry \<noteq> socket_id s" by (auto simp: find_None_iff)
  moreover from None have "disconnect m s = m" by (simp add: disconnect_def disconnect_loop_find)
  ultimately show ?thesis by simp
next
  case (Some e)
  then have e: "e \<in> set m" "snd e = socket_id s" using find_mem [OF Some] by simp_all
  have inj: "inj_on snd (set m)" using assms by (simp add: directory_ok_def distinct_map)
  have same: "x = e" if "x \<in> set m" "snd x = socket_id s" for x
  proof -
    have "snd x = snd e" using that e by simp
    with inj that(1) e(1) show ?thesis by (simp only: inj_on_eq_iff)
  qed
  have d: "disconnect m s = map_delete m (fst e)"
    using Some by (simp add: disconnect_def disconnect_loop_find)
  show ?thesis
  proof
    fix x assume x: "x \<in> set (disconnect m s)"
    then have "x \<in> set m" "fst x \<noteq> fst e" by (simp_all add: d map_delete_def)
    then show "snd x \<noteq> socket_id s" using same by blast
  qed
qed

lemma disconnect_idempotent:
  "directory_ok m \<Longrightarrow> disconnect (disconnect m s) s = disconnect m s"
  using disconnect_removes [of m s]
  by (simp add: disconnect_def disconnect_loop_no_match)

lemma Channel_findByIdAndUpdate_push_Messages:
  "Channel_findByIdAndUpdate_push d cid i = Inr d' \<Longrightarrow> Messages d' = Messages d"
  by (auto simp: Channel_findByIdAndUpdate_push_def split: sum.splits option.splits
        dest: gateway_fields)

lemma sendMessageOnChannel_stores:
  assumes "validate m" "reachable_for 1 db"
  shows "Messages (fst (sendMessageOnChannel usm db m)) = Messages db @ [new_document db m]"
proof -
  have r: "reachable_for (Suc 0) db" using assms(2) by simp
  note c1 = Message_create_ok [OF assms(1) r]
  show ?thesis
    by (auto simp: sendMessageOnChannel_def c1 Let_def
          split: sum.splits prod.splits option.splits
          dest!: Message_findById_populate_Messages Channel_findByIdAndUpdate_push_Messages
                 Channel_findById_populate_fields)
qed

section \<open>Lemmas on failing persistence calls\<close>

lemma gateway_fail: "outage d = Some 0 \<Longrightarrow> gateway d = Inl StorageError"
  by (simp add: gateway_def)

lemma not_reachable_for:
  "\<not> reachable_for n d \<longleftrightarrow> (\<exists>k. outage d = Some k \<and> k < n)"
  by (auto simp: reachable_for_def split: option.splits)

lemma sendMessage_failure:
  assumes "\<not> validate m \<or> \<not> reachable_for 2 db"
  shows "emits (snd (sendMessage usm db m)) = []
       \<and> last (snd (sendMessage usm db m))
           = ConsoleLog (if validate m then StorageError else ValidationError)"
proof (cases "\<not> validate m \<or> outage db = Some 0")
  case True
  then show ?thesis
    by (auto simp: sendMessage_def Message_create_fail Let_def)
next
  case False
  then have v: "validate m" and "outage db \<noteq> Some 0" by simp_all
  with assms have o: "outage db = Some (Suc 0)"
    by (auto simp: not_reachable_for less_Suc_eq numeral_2_eq_2)
  have r: "reachable_for (Suc 0) db" using o by (simp add: reachable_for_def)
  have f: "Message_findById_populate ((tick db)\<lparr>Messages := Messages db @ [new_document db m]\<rparr>)
             (fresh_id (Messages db)) True = Inl StorageError"
    by (simp add: Message_findById_populate_def gateway_fail tick_def o)
  show ?thesis
    using v by (simp add: sendMessage_def Message_create_ok [OF v r] f Let_def)
qed

lemma sendMessageOnChannel_failure:
  assumes "\<not> validate m \<or> \<not> reachable_for 4 db"
  shows "emits (snd (sendMessageOnChannel usm db m)) = []
       \<and> last (snd (sendMessageOnChannel usm db m))
           = ConsoleLog (if validate m then StorageError else ValidationError)"
proof (cases "\<not> validate m \<or> outage db = Some 0")
  case True
  then show ?thesis
    by (auto simp: sendMessageOnChannel_def Message_create_fail)
next
  case False
  then have v: "validate m" and "outage db \<noteq> Some 0" by simp_all
  with assms obtain k where o: "outage db = Some (Suc k)" and k: "k < 3"
    by (auto simp: not_reachable_for eval_nat_numeral less_Suc_eq)
  from k have "k = 0 \<or> k = 1 \<or> k = 2" by auto
  then show ?thesis
    using v o
    by (auto simp: sendMessageOnChannel_def Message_create_def Message_findById_populate_def
          Channel_findByIdAndUpdate_push_def Channel_findById_populate_def gateway_def Let_def
          find_new_document new_document_def
          split: option.splits)
qed

section \<open>Facts about the example data\<close>

lemma example_validate: "validate hi"
  by (simp add: validate_def hi_def truthy_def)

lemma example_reachable: "reachable_for n example_db"
  by (simp add: reachable_for_def example_db_def)

lemma both_online_ok: "directory_ok both_online"
  by (simp add: directory_ok_def both_online_def)

section \<open>The claims\<close>

text \<open>
  Claim C5. Binding an identity to a first handle and then to a second, different one leaves
  the directory resolving that identity to the second handle and not to the first. Two
  connections that claim the same non-empty user id perform exactly these two bindings.
\<close>

theorem bind_twice_last_wins:
  assumes "h1 \<noteq> h2"
  shows "map_get (map_set (map_set m u h1) u h2) (Some u) = Some h2
       \<and> map_get (map_set (map_set m u h1) u h2) (Some u) \<noteq> Some h1
       \<and> (u \<noteq> [] \<and> socket_id s1 = h1 \<and> socket_id s2 = h2
            \<and> handshake_query_userId s1 = Some u \<and> handshake_query_userId s2 = Some u
          \<longrightarrow> fst (connection (fst (connection m s1)) s2) = map_set (map_set m u h1) u h2)"
  using assms
  by (simp add: map_get_def map_get_string_map_set connection_def truthy_def)

theorem bind_twice_last_wins_witness:
  "''s1'' \<noteq> ''s2''
   \<and> map_get (map_set (map_set [(''bob'', ''s0'')] ''alice'' ''s1'') ''alice'' ''s2'')
         (Some ''alice'') = Some ''s2''
   \<and> fst (connection
           (fst (connection [(''bob'', ''s0'')]
                   \<lparr>socket_id = ''s1'', handshake_query_userId = Some ''alice''\<rparr>))
           \<lparr>socket_id = ''s2'', handshake_query_userId = Some ''alice''\<rparr>)
       = [(''bob'', ''s0''), (''alice'', ''s2'')]"
  using bind_twice_last_wins
    [of "''s1''" "''s2''" "[(''bob'', ''s0'')]" "''alice''"
        "\<lparr>socket_id = ''s1'', handshake_query_userId = Some ''alice''\<rparr>"
        "\<lparr>socket_id = ''s2'', handshake_query_userId = Some ''alice''\<rparr>"]
  by simp

text \<open>
  Claim C6. \<^verbatim>\<open>disconnect\<close> for a socket whose id is the value of no directory entry leaves
  the directory as it was, and so does repeating it.
\<close>

theorem disconnect_unmatched_noop:
  assumes "\<forall>entry \<in> set m. snd entry \<noteq> socket_id socket"
  shows "disconnect m socket = m \<and> disconnect (disconnect m socket) socket = disconnect m socket"
  using assms by (simp add: disconnect_def disconnect_loop_no_match)

theorem disconnect_unmatched_noop_witness:
  "''s9'' \<notin> snd ` set both_online
   \<and> disconnect both_online \<lparr>socket_id = ''s9'', handshake_query_userId = None\<rparr>
       = both_online"
  using disconnect_unmatched_noop
    [of both_online "\<lparr>socket_id = ''s9'', handshake_query_userId = None\<rparr>"]
  by (simp add: both_online_def)

text \<open>
  Claim C1. A direct message from A to B, two distinct identities as the data model of direct
  messages requires, that passes the schema and is sent while the storage is reachable: if
  both A and B have a directory entry at delivery, \<^verbatim>\<open>sendMessage\<close> emits exactly two
  pushes, both carrying the populated copy of the stored message, one to B's socket and one to
  A's; so each of the two sockets receives exactly one push for the message.
\<close>

theorem sendMessage_pushes_once_each:
  assumes "validate message" and "reachable_for 2 db" and "directory_ok usm"
    and "sender message = Some A" and "receiver message = Some B" and "A \<noteq> B"
    and "map_get usm (Some A) = Some hA" and "map_get usm (Some B) = Some hB"
  shows "emits (snd (sendMessage usm db message)) =
           [(hB, ''recieveMessage'',
             Some (populate_message (Users db) True (new_document db message))),
            (hA, ''recieveMessage'',
             Some (populate_message (Users db) True (new_document db message)))]
         \<and> pushes_to hA (snd (sendMessage usm db message)) = 1
         \<and> pushes_to hB (snd (sendMessage usm db message)) = 1
         \<and> new_document db message \<in> set (Messages (fst (sendMessage usm db message)))"
proof -
  have h: "hA \<noteq> hB" "hA \<noteq> []" "hB \<noteq> []"
    using directory_ok_handles [OF assms(3) assms(7) assms(8) assms(6)] by simp_all
  show ?thesis
    using h assms(4,5,7,8)
    by (simp add: sendMessage_ok [OF assms(1,2)] emits_emit_if_online pushes_to_def)
qed

theorem sendMessage_pushes_once_each_witness:
  "validate hi \<and> reachable_for 2 example_db \<and> directory_ok both_online
   \<and> sender hi = Some ''alice'' \<and> receiver hi = Some ''bob'' \<and> ''alice'' \<noteq> ''bob''
   \<and> map_get both_online (Some ''alice'') = Some ''s1''
   \<and> map_get both_online (Some ''bob'') = Some ''s2''
   \<and> pushes_to ''s1'' (snd (sendMessage both_online example_db hi)) = 1
   \<and> pushes_to ''s2'' (snd (sendMessage both_online example_db hi)) = 1"
  using sendMessage_pushes_once_each
    [of hi example_db both_online "''alice''" "''bob''" "''s1''" "''s2''"]
  by (simp add: example_validate example_reachable both_online_ok)
     (simp add: hi_def both_online_def map_get_def)

text \<open>
  Claim C7. A direct message from A to B that passes the schema, sent while the storage is
  reachable and B has no directory entry: no socket other than the one bound to the sender
  receives a push (so none reaches B), the message is stored, and \<^verbatim>\<open>getMessages\<close> for the
  pair A, B, asked by either of them while the record is stored and the storage is reachable,
  returns it.
\<close>

theorem offline_receiver_persisted_not_pushed:
  assumes "validate message" and "reachable_for 1 db"
    and "sender message = Some A" and "receiver message = Some B"
    and "A \<noteq> []" and "B \<noteq> []"
    and "map_get usm (Some B) = None"
  shows "(\<forall>h. map_get usm (Some A) \<noteq> Some h \<longrightarrow>
              pushes_to h (snd (sendMessage usm db message)) = 0)
       \<and> Messages (fst (sendMessage usm db message)) = Messages db @ [new_document db message]
       \<and> (\<forall>db'. new_document db message \<in> set (Messages db') \<and> reachable_for 1 db'
            \<longrightarrow> (\<exists>ms. getMessages db' (Some A) (Some B) = Json_messages 200 ms
                       \<and> new_document db message \<in> set ms)
              \<and> (\<exists>ms. getMessages db' (Some B) (Some A) = Json_messages 200 ms
                       \<and> new_document db message \<in> set ms))"
proof -
  have st: "Messages (fst (sendMessage usm db message)) = Messages db @ [new_document db message]"
    using sendMessage_stores [OF assms(1,2)] .
  have p: "\<forall>h. map_get usm (Some A) \<noteq> Some h \<longrightarrow>
              pushes_to h (snd (sendMessage usm db message)) = 0"
    using sendMessage_shape [of usm db message] assms(3,4,7)
    by (auto simp: pushes_to_emit_if_online)
  have f: "\<forall>db'. new_document db message \<in> set (Messages db') \<and> reachable_for 1 db'
            \<longrightarrow> (\<exists>ms. getMessages db' (Some A) (Some B) = Json_messages 200 ms
                       \<and> new_document db message \<in> set ms)
              \<and> (\<exists>ms. getMessages db' (Some B) (Some A) = Json_messages 200 ms
                       \<and> new_document db message \<in> set ms)"
    using assms(3,4,5,6) by (auto simp: getMessages_ok)
  show ?thesis using st p f by blast
qed


theorem offline_receiver_persisted_not_pushed_witness:
  "validate hi \<and> reachable_for 1 example_db
   \<and> map_get [(''alice'', ''s1'')] (Some ''bob'') = None
   \<and> pushes_to ''s2'' (snd (sendMessage [(''alice'', ''s1'')] example_db hi)) = 0
   \<and> Messages (fst (sendMessage [(''alice'', ''s1'')] example_db hi))
       = [new_document example_db hi]
   \<and> (\<exists>ms. getMessages (fst (sendMessage [(''alice'', ''s1'')] example_db hi))
               (Some ''bob'') (Some ''alice'') = Json_messages 200 ms
            \<and> new_document example_db hi \<in> set ms)"
proof -
  have g: "map_get [(''alice'', ''s1'')] (Some ''bob'') = None"
    and a: "map_get [(''alice'', ''s1'')] (Some ''alice'') \<noteq> Some ''s2''"
    by (simp_all add: map_get_def)
  have s: "sender hi = Some ''alice''" "receiver hi = Some ''bob''" by (simp_all add: hi_def)
  have m: "Messages example_db = []" by (simp add: example_db_def)
  have r: "reachable_for 1 (fst (sendMessage [(''alice'', ''s1'')] example_db hi))"
    by (simp add: sendMessage_ok [OF example_validate example_reachable])
       (simp add: reachable_for_def tick_def example_db_def)
  note t = offline_receiver_persisted_not_pushed
    [OF example_validate example_reachable s(1) s(2) _ _ g]
  have t': "(\<forall>h. map_get [(''alice'', ''s1'')] (Some ''alice'') \<noteq> Some h \<longrightarrow>
              pushes_to h (snd (sendMessage [(''alice'', ''s1'')] example_db hi)) = 0)
       \<and> Messages (fst (sendMessage [(''alice'', ''s1'')] example_db hi)) = Messages example_db @ [new_document example_db hi]
       \<and> (\<forall>db'. new_document example_db hi \<in> set (Messages db') \<and> reachable_for 1 db'
            \<longrightarrow> (\<exists>ms. getMessages db' (Some ''alice'') (Some ''bob'') = Json_messages 200 ms
                       \<and> new_document example_db hi \<in> set ms)
              \<and> (\<exists>ms. getMessages db' (Some ''bob'') (Some ''alice'') = Json_messages 200 ms
                       \<and> new_document example_db hi \<in> set ms))"
    by (rule t) simp_all
  from t' have p: "pushes_to ''s2'' (snd (sendMessage [(''alice'', ''s1'')] example_db hi)) = 0"
    using a by blast
  from t' have st: "Messages (fst (sendMessage [(''alice'', ''s1'')] example_db hi))
       = [new_document example_db hi]" by (simp add: m)
  from t' r st have h: "\<exists>ms. getMessages (fst (sendMessage [(''alice'', ''s1'')] example_db hi))
               (Some ''bob'') (Some ''alice'') = Json_messages 200 ms
            \<and> new_document example_db hi \<in> set ms"
    by simp
  show ?thesis using example_validate example_reachable g p st h by blast
qed

text \<open>
  Claim C3, amended. A persistence call of a handler fails when the schema rejects the
  message or when the storage becomes unreachable before the last awaited gateway call of the
  handler (\<^verbatim>\<open>sendMessage\<close> makes two, \<^verbatim>\<open>sendMessageOnChannel\<close> four). In every such run
  no push is emitted and the last thing the handler does is to log the error: no event goes
  to the sender. More generally, a run that reaches the \<^verbatim>\<open>catch\<close> block has emitted no
  push. When \<^verbatim>\<open>Message.create\<close> is the call that fails, the database is left as it was,
  so no history fetch can show the message. When \<^verbatim>\<open>Message.create\<close> succeeds, the
  record it wrote stays stored whatever fails afterwards.
\<close>

theorem persistence_failure_logged_only:
  "(\<not> validate message \<or> \<not> reachable_for 2 db \<longrightarrow>
        emits (snd (sendMessage usm db message)) = []
        \<and> last (snd (sendMessage usm db message))
            = ConsoleLog (if validate message then StorageError else ValidationError))
   \<and> (\<not> validate message \<or> \<not> reachable_for 4 db \<longrightarrow>
        emits (snd (sendMessageOnChannel usm db message)) = []
        \<and> last (snd (sendMessageOnChannel usm db message))
            = ConsoleLog (if validate message then StorageError else ValidationError))
   \<and> (\<forall>e. ConsoleLog e \<in> set (snd (sendMessage usm db message))
         \<longrightarrow> emits (snd (sendMessage usm db message)) = [])
   \<and> (\<forall>e. ConsoleLog e \<in> set (snd (sendMessageOnChannel usm db message))
         \<longrightarrow> emits (snd (sendMessageOnChannel usm db message)) = [])
   \<and> (\<not> validate message \<or> outage db = Some 0 \<longrightarrow>
        (\<exists>e. sendMessage usm db message =
               (db, [MapGet (sender message), MapGet (receiver message),
                     Await ''Message.create'', ConsoleLog e])
           \<and> sendMessageOnChannel usm db message =
               (db, [Await ''Message.create'', ConsoleLog e])))
   \<and> (validate message \<and> reachable_for 1 db \<longrightarrow>
        Messages (fst (sendMessage usm db message)) = Messages db @ [new_document db message]
        \<and> Messages (fst (sendMessageOnChannel usm db message))
            = Messages db @ [new_document db message])"
proof -
  have c: "\<not> validate message \<or> outage db = Some 0 \<Longrightarrow>
        (\<exists>e. sendMessage usm db message =
               (db, [MapGet (sender message), MapGet (receiver message),
                     Await ''Message.create'', ConsoleLog e])
           \<and> sendMessageOnChannel usm db message =
               (db, [Await ''Message.create'', ConsoleLog e]))"
    by (simp add: sendMessage_def sendMessageOnChannel_def Message_create_fail Let_def)
  show ?thesis
    using c sendMessage_failure [of message db usm]
      sendMessageOnChannel_failure [of message db usm]
      sendMessage_logged_no_push [of _ usm db message]
      sendMessageOnChannel_logged_no_push [of _ usm db message]
      sendMessage_stores [of message db usm] sendMessageOnChannel_stores [of message db usm]
    by blast
qed

theorem persistence_failure_logged_only_witness:
  "\<not> validate no_content
   \<and> fst (sendMessage both_online example_db no_content) = example_db
   \<and> emits (snd (sendMessage both_online example_db no_content)) = []
   \<and> fst (sendMessageOnChannel both_online example_db no_content) = example_db
   \<and> emits (snd (sendMessageOnChannel both_online example_db no_content)) = []
   \<and> validate hi \<and> \<not> reachable_for 2 (example_db\<lparr>outage := Some 1\<rparr>)
   \<and> emits (snd (sendMessage both_online (example_db\<lparr>outage := Some 1\<rparr>) hi)) = []
   \<and> last (snd (sendMessage both_online (example_db\<lparr>outage := Some 1\<rparr>) hi))
       = ConsoleLog StorageError
   \<and> validate to_general \<and> \<not> reachable_for 4 (example_db\<lparr>outage := Some 3\<rparr>)
   \<and> emits (snd (sendMessageOnChannel both_online (example_db\<lparr>outage := Some 3\<rparr>) to_general))
       = []
   \<and> last (snd (sendMessageOnChannel both_online (example_db\<lparr>outage := Some 3\<rparr>) to_general))
       = ConsoleLog StorageError"
proof -
  have v: "\<not> validate no_content"
    by (simp add: validate_def no_content_def hi_def truthy_def)
  have r: "\<not> reachable_for 2 (example_db\<lparr>outage := Some 1\<rparr>)"
    "\<not> reachable_for 4 (example_db\<lparr>outage := Some 3\<rparr>)"
    by (simp_all add: reachable_for_def)
  from persistence_failure_logged_only [of no_content example_db both_online] v
  obtain e where
    "sendMessage both_online example_db no_content =
       (example_db, [MapGet (sender no_content), MapGet (receiver no_content),
                     Await ''Message.create'', ConsoleLog e])"
    "sendMessageOnChannel both_online example_db no_content =
       (example_db, [Await ''Message.create'', ConsoleLog e])"
    by blast
  then have a: "fst (sendMessage both_online example_db no_content) = example_db
   \<and> emits (snd (sendMessage both_online example_db no_content)) = []
   \<and> fst (sendMessageOnChannel both_online example_db no_content) = example_db
   \<and> emits (snd (sendMessageOnChannel both_online example_db no_content)) = []"
    by simp
  have b: "emits (snd (sendMessage both_online (example_db\<lparr>outage := Some 1\<rparr>) hi)) = []
   \<and> last (snd (sendMessage both_online (example_db\<lparr>outage := Some 1\<rparr>) hi))
       = ConsoleLog StorageError"
    using persistence_failure_logged_only
      [of hi "example_db\<lparr>outage := Some 1\<rparr>" both_online] r(1) example_validate
    by simp
  have c: "emits (snd (sendMessageOnChannel both_online (example_db\<lparr>outage := Some 3\<rparr>) to_general))
       = []
   \<and> last (snd (sendMessageOnChannel both_online (example_db\<lparr>outage := Some 3\<rparr>) to_general))
       = ConsoleLog StorageError"
    using persistence_failure_logged_only
      [of to_general "example_db\<lparr>outage := Some 3\<rparr>" both_online] r(2)
      example_validate_channel(1)
    by simp
  show ?thesis
    using v r a b c example_validate example_validate_channel(1) by blast
qed

text \<open>
  Claim C3 as stated fails in two ways. A message without content, submitted by alice while she
  is bound to socket \<open>s1\<close>, is rejected by the schema, and the handlers do nothing but log
  the error: no event reaches alice. And when the storage becomes unreachable after
  \<^verbatim>\<open>Message.create\<close>, the re-read throws, nothing is pushed, and the stored record is
  returned by the next history fetch.
\<close>

theorem failure_not_surfaced_record_kept:
  "map_get both_online (sender no_content) = Some ''s1''
   \<and> snd (sendMessage both_online example_db no_content) =
       [MapGet (Some ''alice''), MapGet (Some ''bob''), Await ''Message.create'',
        ConsoleLog ValidationError]
   \<and> snd (sendMessageOnChannel both_online example_db no_content) =
       [Await ''Message.create'', ConsoleLog ValidationError]
   \<and> snd (sendMessage both_online (example_db\<lparr>outage := Some 1\<rparr>) hi) =
       [MapGet (Some ''alice''), MapGet (Some ''bob''), Await ''Message.create'',
        Await ''Message.findById'', ConsoleLog StorageError]
   \<and> getMessages ((fst (sendMessage both_online (example_db\<lparr>outage := Some 1\<rparr>) hi))
                    \<lparr>outage := None\<rparr>) (Some ''alice'') (Some ''bob'')
       = Json_messages 200 [new_document example_db hi]"
  by code_simp

text \<open>
  Claim C4, amended. \<^verbatim>\<open>sendMessage\<close> first looks up the sender and then the receiver in the
  directory, only then awaits \<^verbatim>\<open>Message.create\<close>, and never reads the directory again.
  Pushes, if there are any, are the last effects and come after the awaited re-read, which
  comes after \<^verbatim>\<open>Message.create\<close>: persistence happens before every push.
\<close>

theorem sendMessage_order:
  "\<exists>rest. snd (sendMessage usm db message) =
            MapGet (sender message) # MapGet (receiver message) # Await ''Message.create'' # rest
     \<and> before_create (snd (sendMessage usm db message)) =
            [MapGet (sender message), MapGet (receiver message)]
     \<and> (\<forall>k. MapGet k \<notin> set rest)
     \<and> (emits rest = []
         \<or> (\<exists>pushes. rest = Await ''Message.findById'' # pushes \<and> list_all is_push pushes))"
proof -
  from sendMessage_shape [of usm db message] obtain rest where
    fx: "snd (sendMessage usm db message) =
            MapGet (sender message) # MapGet (receiver message) # Await ''Message.create'' # rest"
    and alt: "(\<exists>e. rest = [ConsoleLog e])
        \<or> (\<exists>e. rest = [Await ''Message.findById'', ConsoleLog e])
        \<or> (\<exists>data. rest = Await ''Message.findById''
               # emit_if_online (map_get usm (receiver message)) ''recieveMessage'' data
               @ emit_if_online (map_get usm (sender message)) ''recieveMessage'' data)"
    by blast
  have b: "before_create (snd (sendMessage usm db message)) =
            [MapGet (sender message), MapGet (receiver message)]"
    by (simp add: fx before_create_def)
  have l: "\<forall>k. MapGet k \<notin> set rest"
    using alt by (auto simp: emit_if_online_no_lookup)
  have p: "emits rest = []
         \<or> (\<exists>pushes. rest = Await ''Message.findById'' # pushes \<and> list_all is_push pushes)"
    using alt by (auto simp: emit_if_online_pushes)
  show ?thesis using fx b l p by blast
qed

theorem sendMessage_order_witness:
  "\<exists>rest. snd (sendMessage both_online example_db hi) =
            MapGet (sender hi) # MapGet (receiver hi) # Await ''Message.create'' # rest
     \<and> before_create (snd (sendMessage both_online example_db hi)) =
            [MapGet (sender hi), MapGet (receiver hi)]
     \<and> (\<forall>k. MapGet k \<notin> set rest)
     \<and> (emits rest = []
         \<or> (\<exists>pushes. rest = Await ''Message.findById'' # pushes \<and> list_all is_push pushes))"
  using sendMessage_order [of both_online example_db hi] .

text \<open>
  Claim C4 as stated fails: in the run of \<^verbatim>\<open>sendMessage\<close> for alice's message to bob the
  two directory lookups are the effects that precede \<^verbatim>\<open>Message.create\<close>, and no lookup
  follows it.
\<close>

theorem lookup_precedes_persistence:
  "before_create (snd (sendMessage both_online example_db hi)) =
     [MapGet (Some ''alice''), MapGet (Some ''bob'')]
   \<and> map is_push (snd (sendMessage both_online example_db hi)) =
     [False, False, False, False, True, True]
   \<and> take 4 (snd (sendMessage both_online example_db hi)) =
     [MapGet (Some ''alice''), MapGet (Some ''bob''), Await ''Message.create'',
      Await ''Message.findById'']"
  by code_simp

text \<open>
  Claim C8, amended. Every push of \<^verbatim>\<open>sendMessage\<close> carries the event label
  \<^verbatim>\<open>"recieveMessage"\<close> and every push of \<^verbatim>\<open>sendMessageOnChannel\<close> the label
  \<^verbatim>\<open>"recieveChannelMessage"\<close>, spelled as in the source.
\<close>

theorem push_labels:
  "(\<forall>l \<in> set (labels (snd (sendMessage usm db message))). l = ''recieveMessage'')
   \<and> (\<forall>l \<in> set (labels (snd (sendMessageOnChannel usm db message))).
         l = ''recieveChannelMessage'')"
proof -
  have d: "\<forall>l \<in> set (labels (snd (sendMessage usm db message))). l = ''recieveMessage''"
    using sendMessage_shape [of usm db message]
    by (auto dest: labels_emit_if_online)
  have c: "\<forall>l \<in> set (labels (snd (sendMessageOnChannel usm db message))).
         l = ''recieveChannelMessage''"
    by (auto simp: sendMessageOnChannel_def Let_def
          split: sum.splits prod.splits option.splits dest: labels_broadcast)
  show ?thesis using d c by blast
qed

theorem push_labels_witness:
  "labels (snd (sendMessage both_online example_db hi)) \<noteq> []
   \<and> set (labels (snd (sendMessage both_online example_db hi))) \<subseteq> {''recieveMessage''}
   \<and> labels (snd (sendMessageOnChannel both_online example_db to_general)) \<noteq> []
   \<and> set (labels (snd (sendMessageOnChannel both_online example_db to_general)))
       \<subseteq> {''recieveChannelMessage''}"
proof -
  have n: "labels (snd (sendMessage both_online example_db hi)) \<noteq> []"
    "labels (snd (sendMessageOnChannel both_online example_db to_general)) \<noteq> []"
    by code_simp+
  show ?thesis
    using n push_labels [of both_online example_db hi]
      push_labels [of both_online example_db to_general]
    by blast
qed

text \<open>
  Claim C8 as stated fails: the labels of the pushes are not \<^verbatim>\<open>"receiveMessage"\<close> and
  \<^verbatim>\<open>"receiveChannelMessage"\<close>.
\<close>

theorem labels_are_misspelled:
  "labels (snd (sendMessage both_online example_db hi)) = [''recieveMessage'', ''recieveMessage'']
   \<and> ''receiveMessage'' \<notin> set (labels (snd (sendMessage both_online example_db hi)))
   \<and> labels (snd (sendMessageOnChannel both_online example_db to_general)) =
       [''recieveChannelMessage'', ''recieveChannelMessage'', ''recieveChannelMessage'']
   \<and> ''receiveChannelMessage''
       \<notin> set (labels (snd (sendMessageOnChannel both_online example_db to_general)))"
  by code_simp

text \<open>
  Claim C2. A channel message that passes the schema, sent to a stored channel while the
  storage is reachable, with every member and admin of the channel a stored user: the message
  record is appended to the stored messages and is the only one with its id; its id is
  appended to the message list of the channel, which adds exactly one reference to it over all
  channels; and the pushes are, in this order, one for every entry of the member list whose
  identity has a directory entry and then one for every such entry of the admin list, all
  carrying the populated message with the channel id. An identity in both lists is counted in
  both.
\<close>

theorem channel_message_fanout:
  assumes "validate message" and "reachable_for 4 db" and "directory_ok usm"
    and "channel message = Some c"
    and "find (\<lambda>ch. channel_id ch = c) (Channels db) = Some ch"
    and "set (members ch) \<union> set (admin ch) \<subseteq> user_id ` set (Users db)"
  shows "Messages (fst (sendMessageOnChannel usm db message))
             = Messages db @ [new_document db message]
       \<and> count_list (map doc_id (Messages (fst (sendMessageOnChannel usm db message))))
             (doc_id (new_document db message)) = 1
       \<and> find (\<lambda>ch. channel_id ch = c) (Channels (fst (sendMessageOnChannel usm db message)))
             = Some (ch\<lparr>messages := messages ch @ [doc_id (new_document db message)]\<rparr>)
       \<and> count_list (concat (map messages (Channels (fst (sendMessageOnChannel usm db message)))))
             (doc_id (new_document db message))
           = Suc (count_list (concat (map messages (Channels db)))
                    (doc_id (new_document db message)))
       \<and> emits (snd (sendMessageOnChannel usm db message))
           = map (\<lambda>h. (h, ''recieveChannelMessage'',
                        Some ((populate_message (Users db) False (new_document db message))
                                \<lparr>data_channelId := Some c\<rparr>)))
               (live_handles usm (members ch) @ live_handles usm (admin ch))"
proof -
  note ok = sendMessageOnChannel_ok [OF assms(1,2,4,5), of usm]
  have ms: "map user_id (populate_users (Users db) (members ch)) = members ch"
    and ad: "map user_id (populate_users (Users db) (admin ch)) = admin ch"
    using assms(6) by (simp_all add: populate_users_ids)
  have 1: "Messages (fst (sendMessageOnChannel usm db message))
             = Messages db @ [new_document db message]"
    by (simp add: ok)
  have 2: "count_list (map doc_id (Messages (fst (sendMessageOnChannel usm db message))))
             (doc_id (new_document db message)) = 1"
    by (simp add: 1 count_list_fresh)
  have 3: "find (\<lambda>ch. channel_id ch = c) (Channels (fst (sendMessageOnChannel usm db message)))
             = Some (ch\<lparr>messages := messages ch @ [doc_id (new_document db message)]\<rparr>)"
    by (simp add: ok find_push_message assms(5))
  have 4: "count_list (concat (map messages (Channels (fst (sendMessageOnChannel usm db message)))))
             (doc_id (new_document db message))
           = Suc (count_list (concat (map messages (Channels db)))
                    (doc_id (new_document db message)))"
    using count_push_message [OF assms(5)] by (simp add: ok)
  have 5: "emits (snd (sendMessageOnChannel usm db message))
           = map (\<lambda>h. (h, ''recieveChannelMessage'',
                        Some ((populate_message (Users db) False (new_document db message))
                                \<lparr>data_channelId := Some c\<rparr>)))
               (live_handles usm (members ch) @ live_handles usm (admin ch))"
    by (simp add: ok emits_broadcast [OF assms(3)] ms ad)
  show ?thesis using 1 2 3 4 5 by blast
qed

theorem channel_message_fanout_witness:
  "validate to_general \<and> reachable_for 4 example_db \<and> directory_ok both_online
   \<and> channel to_general = Some ''c1''
   \<and> map doc_id (Messages (fst (sendMessageOnChannel both_online example_db to_general))) = [1]
   \<and> map messages (Channels (fst (sendMessageOnChannel both_online example_db to_general)))
       = [[1]]
   \<and> map fst (emits (snd (sendMessageOnChannel both_online example_db to_general)))
       = [''s2'', ''s1'', ''s1'']"
proof -
  let ?ch = "\<lparr>channel_id = ''c1'', channel_name = ''general'',
              members = [''bob'', ''alice''], admin = [''alice''], messages = []\<rparr>"
  have f: "find (\<lambda>ch. channel_id ch = ''c1'') (Channels example_db) = Some ?ch"
    by (simp add: example_db_def)
  have u: "set (members ?ch) \<union> set (admin ?ch) \<subseteq> user_id ` set (Users example_db)"
    by (simp add: example_db_def alice_def bob_def)
  have c: "channel to_general = Some ''c1''" by (simp add: to_general_def)
  note t = channel_message_fanout
    [OF example_validate_channel(1) example_reachable both_online_ok c f u]
  have l: "live_handles both_online [''bob'', ''alice''] = [''s2'', ''s1'']"
    "live_handles both_online [''alice''] = [''s1'']"
    by (simp_all add: live_handles_def map_filter_simps map_get_def both_online_def)
  have i: "doc_id (new_document example_db to_general) = 1"
    by (simp add: fresh_id_def example_db_def)
  have "map doc_id (Messages (fst (sendMessageOnChannel both_online example_db to_general))) = [1]"
    using t i by (simp add: example_db_def)
  moreover have "map messages (Channels (fst (sendMessageOnChannel both_online example_db to_general)))
       = [[1]]"
    by (simp add: sendMessageOnChannel_ok [OF example_validate_channel(1) example_reachable c f])
       (simp add: example_db_def fresh_id_def)
  moreover have "map fst (emits (snd (sendMessageOnChannel both_online example_db to_general)))
       = [''s2'', ''s1'', ''s1'']"
    using t l by (simp add: comp_def)
  ultimately show ?thesis
    using example_validate_channel(1) example_reachable both_online_ok c by blast
qed

text \<open>
  Claim C9, amended. For a channel message that passes the schema: when its channel id names a
  stored channel and the storage stays reachable up to the channel update, the id of the stored
  message ends up in that channel's message list; when its channel id names no stored channel,
  the message record is stored all the same, no channel is changed (so no channel refers to
  the record), and nothing is pushed.
\<close>

theorem channel_message_link:
  assumes "validate message" and "channel message = Some c"
  shows "(reachable_for 3 db \<and> c \<in> channel_id ` set (Channels db) \<longrightarrow>
            (\<exists>ch \<in> set (Channels (fst (sendMessageOnChannel usm db message))).
                channel_id ch = c \<and> doc_id (new_document db message) \<in> set (messages ch)))
       \<and> (reachable_for 1 db \<and> c \<notin> channel_id ` set (Channels db) \<longrightarrow>
            new_document db message \<in> set (Messages (fst (sendMessageOnChannel usm db message)))
            \<and> Channels (fst (sendMessageOnChannel usm db message)) = Channels db
            \<and> emits (snd (sendMessageOnChannel usm db message)) = [])"
proof -
  have a: "\<exists>ch \<in> set (Channels (fst (sendMessageOnChannel usm db message))).
                channel_id ch = c \<and> doc_id (new_document db message) \<in> set (messages ch)"
    if r: "reachable_for 3 db" and m: "c \<in> channel_id ` set (Channels db)"
  proof -
    from m obtain ch where f: "find (\<lambda>y. channel_id y = c) (Channels db) = Some ch"
      using find_exists [of c channel_id "Channels db"] by blast
    have "find (\<lambda>y. channel_id y = c) (Channels (fst (sendMessageOnChannel usm db message)))
            = Some (ch\<lparr>messages := messages ch @ [fresh_id (Messages db)]\<rparr>)"
      by (simp add: sendMessageOnChannel_links [OF assms(1) r assms(2)] find_push_message f)
    from find_mem [OF this]
    have "ch\<lparr>messages := messages ch @ [fresh_id (Messages db)]\<rparr>
            \<in> set (Channels (fst (sendMessageOnChannel usm db message)))"
      and "channel_id (ch\<lparr>messages := messages ch @ [fresh_id (Messages db)]\<rparr>) = c"
      by simp_all
    then show ?thesis
      by (intro bexI [of _ "ch\<lparr>messages := messages ch @ [fresh_id (Messages db)]\<rparr>"]) simp_all
  qed
  have b: "new_document db message \<in> set (Messages (fst (sendMessageOnChannel usm db message)))
            \<and> Channels (fst (sendMessageOnChannel usm db message)) = Channels db
            \<and> emits (snd (sendMessageOnChannel usm db message)) = []"
    if r: "reachable_for 1 db" and m: "c \<notin> channel_id ` set (Channels db)"
    using sendMessageOnChannel_fields [OF assms(1) r assms(2), of usm]
      sendMessageOnChannel_unknown_channel [OF assms(2) m, of usm]
      push_message_absent [OF m]
    by auto
  show ?thesis using a b by blast
qed

theorem channel_message_link_witness:
  "validate to_general \<and> channel to_general = Some ''c1''
   \<and> reachable_for 3 example_db \<and> ''c1'' \<in> channel_id ` set (Channels example_db)
   \<and> (\<exists>ch \<in> set (Channels (fst (sendMessageOnChannel both_online example_db to_general))).
         channel_id ch = ''c1'' \<and> doc_id (new_document example_db to_general) \<in> set (messages ch))
   \<and> validate to_nowhere \<and> channel to_nowhere = Some ''c9''
   \<and> reachable_for 1 example_db \<and> ''c9'' \<notin> channel_id ` set (Channels example_db)
   \<and> new_document example_db to_nowhere
        \<in> set (Messages (fst (sendMessageOnChannel both_online example_db to_nowhere)))
   \<and> Channels (fst (sendMessageOnChannel both_online example_db to_nowhere)) = Channels example_db
   \<and> emits (snd (sendMessageOnChannel both_online example_db to_nowhere)) = []"
proof -
  have c: "channel to_general = Some ''c1''" "channel to_nowhere = Some ''c9''"
    by (simp_all add: to_general_def to_nowhere_def)
  have m: "''c1'' \<in> channel_id ` set (Channels example_db)"
    "''c9'' \<notin> channel_id ` set (Channels example_db)"
    by (simp_all add: example_db_def)
  show ?thesis
    using channel_message_link [OF example_validate_channel(1) c(1), of example_db both_online]
      channel_message_link [OF example_validate_channel(2) c(2), of example_db both_online]
      example_validate_channel c m example_reachable
    by blast
qed

text \<open>
  Claim C9 as stated fails: bob's message to the channel id \<open>c9\<close>, which names no stored
  channel, is stored, and afterwards no channel refers to it.
\<close>

theorem message_to_unknown_channel_is_orphan:
  "map channel_id (Channels example_db) = [''c1'']
   \<and> channel to_nowhere = Some ''c9''
   \<and> map doc_id (Messages (fst (sendMessageOnChannel both_online example_db to_nowhere))) = [1]
   \<and> map channel_id (Channels (fst (sendMessageOnChannel both_online example_db to_nowhere)))
       = [''c1'']
   \<and> concat (map messages (Channels (fst (sendMessageOnChannel both_online example_db to_nowhere))))
       = []
   \<and> snd (sendMessageOnChannel both_online example_db to_nowhere)
       = [Await ''Message.create'', Await ''Message.findById'',
          Await ''Channel.findByIdAndUpdate'', Await ''Channel.findById'',
          ConsoleLog TypeError]"
  by code_simp

text \<open>
  Claim C10. The connection handler attaches the two submission listeners and the disconnect
  listener to every socket, whatever its handshake carried. What a submission does is the same
  whichever socket submits it: it is the handler applied to the directory, the database and the
  message. A socket that connected without a user id is not entered in the directory, and a
  message that it submits, if it passes the schema while the storage is reachable, is stored
  with the sender that the message names and pushed to the socket bound to that sender.
\<close>

theorem submission_ignores_connection:
  "snd (connection usm socket) = [''sendMessage'', ''sendMessageOnChannel'', ''disconnect'']
   \<and> socket_on srv s1 (sendMessage_event message) = socket_on srv s2 (sendMessage_event message)
   \<and> socket_on srv s1 (sendMessageOnChannel_event message)
       = socket_on srv s2 (sendMessageOnChannel_event message)
   \<and> snd (socket_on srv s1 (sendMessage_event message))
       = snd (sendMessage (srv_userSocketMap srv) (srv_db srv) message)
   \<and> snd (socket_on srv s1 (sendMessageOnChannel_event message))
       = snd (sendMessageOnChannel (srv_userSocketMap srv) (srv_db srv) message)
   \<and> (handshake_query_userId socket = None \<longrightarrow> fst (connection usm socket) = usm)
   \<and> (validate message \<and> reachable_for 2 (srv_db srv) \<longrightarrow>
        Messages (srv_db (fst (socket_on srv socket (sendMessage_event message))))
          = Messages (srv_db srv) @ [new_document (srv_db srv) message]
        \<and> sender (new_document (srv_db srv) message) = sender message
        \<and> (\<forall>h. map_get (srv_userSocketMap srv) (sender message) = Some h \<and> h \<noteq> []
              \<longrightarrow> 1 \<le> pushes_to h (snd (socket_on srv socket (sendMessage_event message)))))"
proof -
  have p: "Messages (srv_db (fst (socket_on srv socket (sendMessage_event message))))
          = Messages (srv_db srv) @ [new_document (srv_db srv) message]
        \<and> sender (new_document (srv_db srv) message) = sender message
        \<and> (\<forall>h. map_get (srv_userSocketMap srv) (sender message) = Some h \<and> h \<noteq> []
              \<longrightarrow> 1 \<le> pushes_to h (snd (socket_on srv socket (sendMessage_event message))))"
    if v: "validate message" and r: "reachable_for 2 (srv_db srv)"
    by (simp add: socket_on_def sendMessage_ok [OF v r] pushes_to_emit_if_online)
  have q: "handshake_query_userId socket = None \<longrightarrow> fst (connection usm socket) = usm"
    by (simp add: connection_def)
  have e: "snd (socket_on srv s1 (sendMessage_event message))
       = snd (sendMessage (srv_userSocketMap srv) (srv_db srv) message)"
    "snd (socket_on srv s1 (sendMessageOnChannel_event message))
       = snd (sendMessageOnChannel (srv_userSocketMap srv) (srv_db srv) message)"
    by (simp_all add: socket_on_def split: prod.splits)
  have i: "socket_on srv s1 (sendMessage_event message) = socket_on srv s2 (sendMessage_event message)"
    "socket_on srv s1 (sendMessageOnChannel_event message)
       = socket_on srv s2 (sendMessageOnChannel_event message)"
    by (simp_all add: socket_on_def)
  have l: "snd (connection usm socket) = [''sendMessage'', ''sendMessageOnChannel'', ''disconnect'']"
    by (simp add: connection_def Let_def)
  show ?thesis using p q e i l by blast
qed

theorem submission_ignores_connection_witness:
  "handshake_query_userId anonymous = None
   \<and> validate hi \<and> reachable_for 2 (srv_db example_server)
   \<and> map_get (srv_userSocketMap example_server) (sender hi) = Some ''s1''
   \<and> snd (connection both_online anonymous)
       = [''sendMessage'', ''sendMessageOnChannel'', ''disconnect'']
   \<and> fst (connection both_online anonymous) = both_online
   \<and> Messages (srv_db (fst (socket_on example_server anonymous (sendMessage_event hi))))
       = [new_document example_db hi]
   \<and> sender (new_document example_db hi) = Some ''alice''
   \<and> 1 \<le> pushes_to ''s1'' (snd (socket_on example_server anonymous (sendMessage_event hi)))"
proof -
  have a: "handshake_query_userId anonymous = None" by (simp add: anonymous_def)
  have r: "reachable_for 2 (srv_db example_server)"
    by (simp add: example_server_def example_reachable)
  have g: "map_get (srv_userSocketMap example_server) (sender hi) = Some ''s1''"
    by (simp add: example_server_def both_online_def hi_def map_get_def)
  have d: "srv_db example_server = example_db" "Messages example_db = []"
    "sender hi = Some ''alice''"
    by (simp_all add: example_server_def example_db_def hi_def)
  show ?thesis
    using submission_ignores_connection
      [where usm = both_online and socket = anonymous and srv = example_server
         and ?s1.0 = anonymous and ?s2.0 = anonymous and message = hi]
      a r g d example_validate
    by force
qed

end
